theory Spec2Isabelle
  imports Complex_Main "HOL-Library.Word"
begin

unbundle bit_operations_syntax

section \<open>The IMU and attitude plugin of mavros (src/plugins/imu.cpp)\<close>

text \<open>
  A shallow embedding of \<^verbatim>\<open>mavros::std_plugins::IMUPlugin\<close>. The plugin's member
  variables are a record that every handler takes and returns; what a handler hands to
  its collaborators (the five publishers and the two attitude stores of the UAS) is the
  list of effects it returns, in program order. A C++ \<^verbatim>\<open>double\<close> is a value of the
  type \<open>double\<close> below, with the arithmetic of IEEE 754 binary64; a MAVLink
  \<^verbatim>\<open>float\<close> field holds the \<open>double\<close> it converts to, which the conversion gives
  exactly. The rosconsole macros (\<^verbatim>\<open>ROS_INFO_COND_NAMED\<close>,
  \<^verbatim>\<open>ROS_WARN_THROTTLE_NAMED\<close>) write to the log only and are left out.
\<close>

subsection \<open>IEEE 754 binary64\<close>

text \<open>
  A \<^verbatim>\<open>double\<close>: a finite value (a real number, with \<open>Finite 0\<close> the positive zero),
  the negative zero, the two infinities, or a NaN (all NaNs are one value). Every
  binary64 number is a value of this type; the operations below round their exact
  result to a binary64 number, so they never leave the format.
\<close>

datatype double = Finite real | NegZero | PosInf | NegInf | NaN

text \<open>The power of two with an integer exponent.\<close>

definition pow2 :: "int \<Rightarrow> real" where
  "pow2 k = (if 0 \<le> k then 2 ^ nat k else 1 / 2 ^ nat (- k))"

text \<open>Rounding to the nearest integer, a tie to the even one.\<close>

definition round_half_even :: "real \<Rightarrow> int" where
  "round_half_even x =
     (let f = \<lfloor>x\<rfloor>; d = x - of_int f in
      if d < 1 / 2 then f else if 1 / 2 < d then f + 1 else if even f then f else f + 1)"

text \<open>
  The exponent of the unit in the last place for a magnitude \<open>m > 0\<close>: 52 below the
  exponent of \<open>m\<close> for a normal number, and \<open>-1074\<close> in the subnormal range.
\<close>

definition quantum :: "real \<Rightarrow> int" where
  "quantum m = max (\<lfloor>log 2 m\<rfloor> - 52) (- 1074)"

text \<open>
  Rounding of an exact magnitude in the default mode (to nearest, ties to even), with
  gradual underflow and an unbounded exponent range above; \<open>round_double\<close> adds the
  sign and the overflow to infinity.
\<close>

definition round_magnitude :: "real \<Rightarrow> real" where
  "round_magnitude m =
     (if m = 0 then 0
      else of_int (round_half_even (m / pow2 (quantum m))) * pow2 (quantum m))"

definition round_double :: "bool \<Rightarrow> real \<Rightarrow> double" where
  "round_double neg m =
     (let r = round_magnitude m in
      if r = 0 then (if neg then NegZero else Finite 0)
      else if 2 ^ 1024 \<le> r then (if neg then NegInf else PosInf)
      else Finite (if neg then - r else r))"

fun sign_bit :: "double \<Rightarrow> bool" where
  "sign_bit (Finite r) = (r < 0)"
| "sign_bit NegZero = True"
| "sign_bit PosInf = False"
| "sign_bit NegInf = True"
| "sign_bit NaN = False"

fun magnitude :: "double \<Rightarrow> real" where
  "magnitude (Finite r) = \<bar>r\<bar>"
| "magnitude d = 0"

fun is_nan :: "double \<Rightarrow> bool" where
  "is_nan NaN = True"
| "is_nan d = False"

fun is_inf :: "double \<Rightarrow> bool" where
  "is_inf PosInf = True"
| "is_inf NegInf = True"
| "is_inf d = False"

fun is_zero :: "double \<Rightarrow> bool" where
  "is_zero (Finite r) = (r = 0)"
| "is_zero NegZero = True"
| "is_zero d = False"

definition signed_infinity :: "bool \<Rightarrow> double" where
  "signed_infinity neg = (if neg then NegInf else PosInf)"

definition signed_zero :: "bool \<Rightarrow> double" where
  "signed_zero neg = (if neg then NegZero else Finite 0)"

text \<open>
  \<^verbatim>\<open>a * b\<close>, \<^verbatim>\<open>a / b\<close> and \<^verbatim>\<open>a == b\<close> on doubles, each operation evaluated in
  binary64 and rounded on its own.
\<close>

definition fmul :: "double \<Rightarrow> double \<Rightarrow> double" where
  "fmul a b =
     (if is_nan a \<or> is_nan b then NaN
      else if is_inf a \<or> is_inf b
      then (if is_zero a \<or> is_zero b then NaN else signed_infinity (sign_bit a \<noteq> sign_bit b))
      else round_double (sign_bit a \<noteq> sign_bit b) (magnitude a * magnitude b))"

definition fdiv :: "double \<Rightarrow> double \<Rightarrow> double" where
  "fdiv a b =
     (if is_nan a \<or> is_nan b then NaN
      else if is_inf a then (if is_inf b then NaN else signed_infinity (sign_bit a \<noteq> sign_bit b))
      else if is_inf b then signed_zero (sign_bit a \<noteq> sign_bit b)
      else if is_zero b then (if is_zero a then NaN else signed_infinity (sign_bit a \<noteq> sign_bit b))
      else round_double (sign_bit a \<noteq> sign_bit b) (magnitude a / magnitude b))"

definition feq :: "double \<Rightarrow> double \<Rightarrow> bool" where
  "feq a b = (\<not> is_nan a \<and> \<not> is_nan b \<and> (is_zero a \<and> is_zero b \<or> a = b))"

text \<open>
  \<^verbatim>\<open>std::pow(x, 2)\<close>, taken as the correctly rounded square, which is also what
  \<^verbatim>\<open>x * x\<close> computes. It is NaN for a NaN, infinite for an infinity and on overflow,
  and the positive zero for a zero and on underflow.
\<close>

definition std_pow_2 :: "double \<Rightarrow> double" where
  "std_pow_2 x =
     (if is_nan x then NaN
      else if is_inf x then PosInf
      else round_double False (magnitude x * magnitude x))"

text \<open>The double that a decimal literal denotes: the nearest one.\<close>

definition double_lit :: "real \<Rightarrow> double" where
  "double_lit r = round_double (r < 0) \<bar>r\<bar>"

text \<open>An \<^verbatim>\<open>int16_t\<close> converted to \<^verbatim>\<open>double\<close>: exact.\<close>

definition double_of_int16 :: "16 word \<Rightarrow> double" where
  "double_of_int16 w = Finite (real_of_int (sint w))"

text \<open>\<^verbatim>\<open>-a\<close>: the sign flipped.\<close>

fun fneg :: "double \<Rightarrow> double" where
  "fneg (Finite r) = (if r = 0 then NegZero else Finite (- r))"
| "fneg NegZero = Finite 0"
| "fneg PosInf = NegInf"
| "fneg NegInf = PosInf"
| "fneg NaN = NaN"

subsection \<open>Eigen and ROS message types\<close>

text \<open>\<^verbatim>\<open>Eigen::Vector3d(x, y, z)\<close> and \<^verbatim>\<open>Eigen::Quaterniond(w, x, y, z)\<close>.\<close>

datatype Vector3d = Vector3d double double double

datatype Quaterniond = Quaterniond double double double double

text \<open>\<^verbatim>\<open>v * c\<close> on a vector, and \<^verbatim>\<open>Vector3d::setZero\<close>.\<close>

fun vec_scale :: "Vector3d \<Rightarrow> double \<Rightarrow> Vector3d" where
  "vec_scale (Vector3d a b c) k = Vector3d (fmul a k) (fmul b k) (fmul c k)"

definition setZero :: "Vector3d" where
  "setZero = Vector3d (Finite 0) (Finite 0) (Finite 0)"

text \<open>\<^verbatim>\<open>ftf::Covariance3d\<close> is an array of nine doubles, row-major.\<close>

type_synonym Covariance3d = "double list"

record Header =
  hdr_seq :: "32 word"
  hdr_stamp :: "32 word \<times> 32 word"
  hdr_frame_id :: string

record Imu =
  imu_header :: Header
  orientation :: Quaterniond
  orientation_covariance :: Covariance3d
  angular_velocity :: Vector3d
  angular_velocity_covariance :: Covariance3d
  linear_acceleration :: Vector3d
  linear_acceleration_covariance :: Covariance3d

record MagneticField =
  mag_header :: Header
  magnetic_field :: Vector3d
  magnetic_field_covariance :: Covariance3d

record Temperature =
  temp_header :: Header
  temperature :: double
  temp_variance :: double

record FluidPressure =
  press_header :: Header
  fluid_pressure :: double
  press_variance :: double

text \<open>What \<^verbatim>\<open>boost::make_shared<M>()\<close> holds: a ROS message with every field zero.\<close>

definition Header_new :: Header where
  "Header_new = \<lparr>hdr_seq = 0, hdr_stamp = (0, 0), hdr_frame_id = ''''\<rparr>"

definition Imu_new :: Imu where
  "Imu_new = \<lparr>imu_header = Header_new,
     orientation = Quaterniond (Finite 0) (Finite 0) (Finite 0) (Finite 0), orientation_covariance = replicate 9 (Finite 0),
     angular_velocity = Vector3d (Finite 0) (Finite 0) (Finite 0), angular_velocity_covariance = replicate 9 (Finite 0),
     linear_acceleration = Vector3d (Finite 0) (Finite 0) (Finite 0), linear_acceleration_covariance = replicate 9 (Finite 0)\<rparr>"

definition MagneticField_new :: MagneticField where
  "MagneticField_new = \<lparr>mag_header = Header_new,
     magnetic_field = Vector3d (Finite 0) (Finite 0) (Finite 0), magnetic_field_covariance = replicate 9 (Finite 0)\<rparr>"

definition Temperature_new :: Temperature where
  "Temperature_new = \<lparr>temp_header = Header_new, temperature = Finite 0, temp_variance = Finite 0\<rparr>"

definition FluidPressure_new :: FluidPressure where
  "FluidPressure_new = \<lparr>press_header = Header_new, fluid_pressure = Finite 0, press_variance = Finite 0\<rparr>"

subsection \<open>MAVLink messages\<close>

text \<open>
  The decoded messages of the \<^verbatim>\<open>common\<close> dialect, with the fields the handlers read.
  The field names carry the message as a prefix. \<^verbatim>\<open>int16_t\<close> fields are 16-bit words
  read with \<^const>\<open>sint\<close>; \<^verbatim>\<open>float\<close> fields hold the double they convert to.
\<close>

record ATTITUDE =
  att_time_boot_ms :: "32 word"
  att_roll :: double
  att_pitch :: double
  att_yaw :: double
  att_rollspeed :: double
  att_pitchspeed :: double
  att_yawspeed :: double

record ATTITUDE_QUATERNION =
  attq_time_boot_ms :: "32 word"
  attq_q1 :: double
  attq_q2 :: double
  attq_q3 :: double
  attq_q4 :: double
  attq_rollspeed :: double
  attq_pitchspeed :: double
  attq_yawspeed :: double

record HIGHRES_IMU =
  hr_time_usec :: "64 word"
  hr_xacc :: double
  hr_yacc :: double
  hr_zacc :: double
  hr_xgyro :: double
  hr_ygyro :: double
  hr_zgyro :: double
  hr_xmag :: double
  hr_ymag :: double
  hr_zmag :: double
  hr_abs_pressure :: double
  hr_temperature :: double
  hr_fields_updated :: "16 word"

record RAW_IMU =
  raw_time_usec :: "64 word"
  raw_xacc :: "16 word"
  raw_yacc :: "16 word"
  raw_zacc :: "16 word"
  raw_xgyro :: "16 word"
  raw_ygyro :: "16 word"
  raw_zgyro :: "16 word"
  raw_xmag :: "16 word"
  raw_ymag :: "16 word"
  raw_zmag :: "16 word"

record SCALED_IMU =
  sc_time_boot_ms :: "32 word"
  sc_xacc :: "16 word"
  sc_yacc :: "16 word"
  sc_zacc :: "16 word"
  sc_xgyro :: "16 word"
  sc_ygyro :: "16 word"
  sc_zgyro :: "16 word"
  sc_xmag :: "16 word"
  sc_ymag :: "16 word"
  sc_zmag :: "16 word"

record SCALED_PRESSURE =
  sp_time_boot_ms :: "32 word"
  sp_press_abs :: double
  sp_temperature :: "16 word"

text \<open>\<^verbatim>\<open>Eigen::Vector3d(a, b, c)\<close> on three \<^verbatim>\<open>int16_t\<close> values.\<close>

definition Vector3d_i16 :: "16 word \<Rightarrow> 16 word \<Rightarrow> 16 word \<Rightarrow> Vector3d" where
  "Vector3d_i16 a b c = Vector3d (double_of_int16 a) (double_of_int16 b) (double_of_int16 c)"

subsection \<open>Collaborators\<close>

text \<open>
  The frame transformations of \<^verbatim>\<open>mavros::ftf\<close> and the UAS are declared in headers
  that are not part of the plugin; the handlers take them as parameters. The \<^verbatim>\<open>ftf\<close>
  functions are fixed for a run; the UAS answers (firmware family, time synchronisation)
  are those at the moment a message is delivered.
\<close>

record ftf =
  quaternion_from_rpy :: "double \<Rightarrow> double \<Rightarrow> double \<Rightarrow> Quaterniond"
  transform_orientation_ned_enu :: "Quaterniond \<Rightarrow> Quaterniond"
  transform_orientation_aircraft_baselink :: "Quaterniond \<Rightarrow> Quaterniond"
  transform_frame_aircraft_baselink :: "Vector3d \<Rightarrow> Vector3d"

record UAS =
  is_ardupilotmega :: bool
  synchronized_header_ms :: "string \<Rightarrow> 32 word \<Rightarrow> Header"
  synchronized_header_us :: "string \<Rightarrow> 64 word \<Rightarrow> Header"

text \<open>The calls a handler makes on its publishers and on the UAS, in program order.\<close>

datatype effect =
    update_attitude_imu_enu Imu
  | update_attitude_imu_ned Imu
  | imu_pub Imu
  | imu_raw_pub Imu
  | magn_pub MagneticField
  | temp_pub Temperature
  | press_pub FluidPressure

subsection \<open>Constants\<close>

text \<open>
  \<^verbatim>\<open>1.0e-4\<close>, \<^verbatim>\<open>1000.0\<close>, \<^verbatim>\<open>1.0e-3\<close>, \<^verbatim>\<open>9.80665 / 1000.0\<close> and \<^verbatim>\<open>1.0e2\<close>. A literal
  that is no binary64 number stands for the nearest one, and the quotient is the
  compiler's, rounded as a division of doubles.
\<close>

definition GAUSS_TO_TESLA :: double where
  "GAUSS_TO_TESLA = double_lit 0.0001"

definition MILLIT_TO_TESLA :: double where
  "MILLIT_TO_TESLA = Finite 1000"

definition MILLIRS_TO_RADSEC :: double where
  "MILLIRS_TO_RADSEC = double_lit 0.001"

definition MILLIG_TO_MS2 :: double where
  "MILLIG_TO_MS2 = fdiv (double_lit 9.80665) (Finite 1000)"

definition MILLIBAR_TO_PASCAL :: double where
  "MILLIBAR_TO_PASCAL = Finite 100"

text \<open>\<^verbatim>\<open>M_PI\<close> of \<^verbatim>\<open>cmath\<close>, the literal \<^verbatim>\<open>3.14159265358979323846\<close>.\<close>

definition M_PI :: double where
  "M_PI = double_lit 3.14159265358979323846"

subsection \<open>The plugin's state\<close>

record IMUPlugin =
  frame_id :: string
  has_hr_imu :: bool
  has_scaled_imu :: bool
  has_att_quat :: bool
  linear_accel_vec_enu :: Vector3d
  linear_accel_vec_ned :: Vector3d
  linear_acceleration_cov :: Covariance3d
  angular_velocity_cov :: Covariance3d
  orientation_cov :: Covariance3d
  unk_orientation_cov :: Covariance3d
  magnetic_cov :: Covariance3d

text \<open>
  The constructor sets the three flags and nothing else; its argument stands for the
  memory the object is built in.
\<close>

definition IMUPlugin_new :: "IMUPlugin \<Rightarrow> IMUPlugin" where
  "IMUPlugin_new mem = mem\<lparr>has_hr_imu := False, has_scaled_imu := False, has_att_quat := False\<rparr>"

text \<open>
  \<^verbatim>\<open>setup_covariance\<close>: \<^verbatim>\<open>std::fill\<close> with zero, then either the sentinel or the
  chained assignment \<^verbatim>\<open>cov[0] = cov[4] = cov[8] = pow(stdev, 2)\<close>, which stores from
  right to left.
\<close>

definition setup_covariance :: "Covariance3d \<Rightarrow> double \<Rightarrow> Covariance3d" where
  "setup_covariance cov stdev =
     (let cov = map (\<lambda>_. Finite 0) cov in
      if feq stdev (Finite 0) then cov[0 := Finite (- 1)]
      else
        (let cov = cov[6 + 2 := std_pow_2 stdev];
             cov = cov[3 + 1 := cov ! (6 + 2)];
             cov = cov[0 + 0 := cov ! (3 + 1)]
         in cov))"

text \<open>
  \<^verbatim>\<open>initialize\<close> reads five parameters of the node handle, each with a default, and
  sets up the five covariance matrices. A parameter that is not set is \<open>None\<close>.
\<close>

record params =
  param_frame_id :: "string option"
  param_linear_acceleration_stdev :: "double option"
  param_angular_velocity_stdev :: "double option"
  param_orientation_stdev :: "double option"
  param_magnetic_stdev :: "double option"

definition param :: "'a option \<Rightarrow> 'a \<Rightarrow> 'a" where
  "param p dflt = (case p of Some v \<Rightarrow> v | None \<Rightarrow> dflt)"

definition initialize :: "params \<Rightarrow> IMUPlugin \<Rightarrow> IMUPlugin" where
  "initialize ps s =
     (let linear_stdev = param (param_linear_acceleration_stdev ps) (double_lit 0.0003);
          angular_stdev = param (param_angular_velocity_stdev ps)
            (fmul (double_lit 0.02) (fdiv M_PI (Finite 180)));
          orientation_stdev = param (param_orientation_stdev ps) (Finite 1);
          mag_stdev = param (param_magnetic_stdev ps) (Finite 0)
      in s\<lparr>frame_id := param (param_frame_id ps) ''base_link'',
           linear_acceleration_cov := setup_covariance (linear_acceleration_cov s) linear_stdev,
           angular_velocity_cov := setup_covariance (angular_velocity_cov s) angular_stdev,
           orientation_cov := setup_covariance (orientation_cov s) orientation_stdev,
           magnetic_cov := setup_covariance (magnetic_cov s) mag_stdev,
           unk_orientation_cov := setup_covariance (unk_orientation_cov s) (Finite 0)\<rparr>)"

subsection \<open>Helpers\<close>

text \<open>
  \<^verbatim>\<open>publish_imu_data\<close> fills the two messages, hands both to the UAS and publishes
  the ENU one. The linear acceleration is the stored one.
\<close>

definition publish_imu_data ::
  "UAS \<Rightarrow> 32 word \<Rightarrow> Quaterniond \<Rightarrow> Quaterniond \<Rightarrow> Vector3d \<Rightarrow> Vector3d \<Rightarrow>
   IMUPlugin \<Rightarrow> IMUPlugin \<times> effect list" where
  "publish_imu_data uas time_boot_ms orientation_enu orientation_ned gyro_enu gyro_ned s =
     (let imu_ned_msg = Imu_new;
          imu_enu_msg = Imu_new;
          imu_enu_msg = imu_enu_msg\<lparr>imu_header := synchronized_header_ms uas (frame_id s) time_boot_ms\<rparr>;
          imu_ned_msg = imu_ned_msg\<lparr>imu_header := synchronized_header_ms uas ''aircraft'' time_boot_ms\<rparr>;
          imu_enu_msg = imu_enu_msg\<lparr>orientation := orientation_enu\<rparr>;
          imu_ned_msg = imu_ned_msg\<lparr>orientation := orientation_ned\<rparr>;
          imu_enu_msg = imu_enu_msg\<lparr>angular_velocity := gyro_enu\<rparr>;
          imu_ned_msg = imu_ned_msg\<lparr>angular_velocity := gyro_ned\<rparr>;
          imu_enu_msg = imu_enu_msg\<lparr>linear_acceleration := linear_accel_vec_enu s\<rparr>;
          imu_ned_msg = imu_ned_msg\<lparr>linear_acceleration := linear_accel_vec_ned s\<rparr>;
          imu_enu_msg = imu_enu_msg\<lparr>orientation_covariance := orientation_cov s\<rparr>;
          imu_enu_msg = imu_enu_msg\<lparr>angular_velocity_covariance := angular_velocity_cov s\<rparr>;
          imu_enu_msg = imu_enu_msg\<lparr>linear_acceleration_covariance := linear_acceleration_cov s\<rparr>;
          imu_ned_msg = imu_ned_msg\<lparr>orientation_covariance := orientation_cov s\<rparr>;
          imu_ned_msg = imu_ned_msg\<lparr>angular_velocity_covariance := angular_velocity_cov s\<rparr>;
          imu_ned_msg = imu_ned_msg\<lparr>linear_acceleration_covariance := linear_acceleration_cov s\<rparr>
      in (s, [update_attitude_imu_enu imu_enu_msg,
              update_attitude_imu_ned imu_ned_msg,
              imu_pub imu_enu_msg]))"

text \<open>\<^verbatim>\<open>publish_imu_data_raw\<close> publishes the raw message and stores the acceleration.\<close>

definition publish_imu_data_raw ::
  "Header \<Rightarrow> Vector3d \<Rightarrow> Vector3d \<Rightarrow> Vector3d \<Rightarrow> IMUPlugin \<Rightarrow> IMUPlugin \<times> effect list" where
  "publish_imu_data_raw header gyro accel_enu accel_ned s =
     (let imu_msg = Imu_new;
          imu_msg = imu_msg\<lparr>imu_header := header\<rparr>;
          imu_msg = imu_msg\<lparr>angular_velocity := gyro\<rparr>;
          imu_msg = imu_msg\<lparr>linear_acceleration := accel_enu\<rparr>;
          s = s\<lparr>linear_accel_vec_enu := accel_enu\<rparr>;
          s = s\<lparr>linear_accel_vec_ned := accel_ned\<rparr>;
          imu_msg = imu_msg\<lparr>orientation_covariance := unk_orientation_cov s\<rparr>;
          imu_msg = imu_msg\<lparr>angular_velocity_covariance := angular_velocity_cov s\<rparr>;
          imu_msg = imu_msg\<lparr>linear_acceleration_covariance := linear_acceleration_cov s\<rparr>
      in (s, [imu_raw_pub imu_msg]))"

definition publish_mag :: "Header \<Rightarrow> Vector3d \<Rightarrow> IMUPlugin \<Rightarrow> IMUPlugin \<times> effect list" where
  "publish_mag header mag_field s =
     (let magn_msg = MagneticField_new;
          magn_msg = magn_msg\<lparr>mag_header := header\<rparr>;
          magn_msg = magn_msg\<lparr>magnetic_field := mag_field\<rparr>;
          magn_msg = magn_msg\<lparr>magnetic_field_covariance := magnetic_cov s\<rparr>
      in (s, [magn_pub magn_msg]))"

text \<open>Sequencing of two steps of a handler: the state is threaded, the effects appended.\<close>

definition seq :: "(IMUPlugin \<Rightarrow> IMUPlugin \<times> effect list) \<Rightarrow> (IMUPlugin \<Rightarrow> IMUPlugin \<times> effect list) \<Rightarrow>
    IMUPlugin \<Rightarrow> IMUPlugin \<times> effect list" where
  "seq f g s = (let (s1, o1) = f s; (s2, o2) = g s1 in (s2, o1 @ o2))"

definition skip :: "IMUPlugin \<Rightarrow> IMUPlugin \<times> effect list" where
  "skip s = (s, [])"

definition on_cond :: "bool \<Rightarrow> (IMUPlugin \<Rightarrow> IMUPlugin \<times> effect list) \<Rightarrow> IMUPlugin \<Rightarrow> IMUPlugin \<times> effect list" where
  "on_cond b f = (if b then f else skip)"

subsection \<open>Message handlers\<close>

definition handle_attitude :: "ftf \<Rightarrow> UAS \<Rightarrow> ATTITUDE \<Rightarrow> IMUPlugin \<Rightarrow> IMUPlugin \<times> effect list" where
  "handle_attitude f uas att s =
     (if has_att_quat s then (s, [])
      else
        (let ned_aircraft_orientation = quaternion_from_rpy f (att_roll att) (att_pitch att) (att_yaw att);
             gyro_ned = Vector3d (att_rollspeed att) (att_pitchspeed att) (att_yawspeed att);
             enu_baselink_orientation = transform_orientation_aircraft_baselink f
               (transform_orientation_ned_enu f ned_aircraft_orientation);
             gyro_enu = transform_frame_aircraft_baselink f gyro_ned
         in publish_imu_data uas (att_time_boot_ms att) enu_baselink_orientation
              ned_aircraft_orientation gyro_enu gyro_ned s))"

definition handle_attitude_quaternion ::
  "ftf \<Rightarrow> UAS \<Rightarrow> ATTITUDE_QUATERNION \<Rightarrow> IMUPlugin \<Rightarrow> IMUPlugin \<times> effect list" where
  "handle_attitude_quaternion f uas att_q s =
     (let s = s\<lparr>has_att_quat := True\<rparr>;
          ned_aircraft_orientation = Quaterniond (attq_q1 att_q) (attq_q2 att_q) (attq_q3 att_q) (attq_q4 att_q);
          gyro_ned = Vector3d (attq_rollspeed att_q) (attq_pitchspeed att_q) (attq_yawspeed att_q);
          enu_baselink_orientation = transform_orientation_aircraft_baselink f
            (transform_orientation_ned_enu f ned_aircraft_orientation);
          gyro_enu = transform_frame_aircraft_baselink f gyro_ned
      in publish_imu_data uas (attq_time_boot_ms att_q) enu_baselink_orientation
           ned_aircraft_orientation gyro_enu gyro_ned s)"

text \<open>
  The four tests of \<^verbatim>\<open>fields_updated\<close> in \<^verbatim>\<open>handle_highres_imu\<close>: the masks are
  \<^verbatim>\<open>(7 << 3) | (7 << 0)\<close>, \<^verbatim>\<open>7 << 6\<close>, \<^verbatim>\<open>1 << 9\<close> and \<^verbatim>\<open>1 << 12\<close>.
\<close>

definition handle_highres_imu :: "ftf \<Rightarrow> UAS \<Rightarrow> HIGHRES_IMU \<Rightarrow> IMUPlugin \<Rightarrow> IMUPlugin \<times> effect list" where
  "handle_highres_imu f uas imu_hr s =
     (let s = s\<lparr>has_hr_imu := True\<rparr>;
          header = synchronized_header_us uas (frame_id s) (hr_time_usec imu_hr)
      in seq
          (on_cond (hr_fields_updated imu_hr AND (push_bit 3 7 OR push_bit 0 7) \<noteq> 0)
            (let gyro = transform_frame_aircraft_baselink f
                   (Vector3d (hr_xgyro imu_hr) (hr_ygyro imu_hr) (hr_zgyro imu_hr));
                 accel_ned = Vector3d (hr_xacc imu_hr) (hr_yacc imu_hr) (hr_zacc imu_hr);
                 accel_enu = transform_frame_aircraft_baselink f accel_ned
             in publish_imu_data_raw header gyro accel_enu accel_ned))
          (seq
            (on_cond (hr_fields_updated imu_hr AND push_bit 6 7 \<noteq> 0)
              (let mag_field = transform_frame_aircraft_baselink f
                     (vec_scale (Vector3d (hr_xmag imu_hr) (hr_ymag imu_hr) (hr_zmag imu_hr)) GAUSS_TO_TESLA)
               in publish_mag header mag_field))
            (seq
              (on_cond (hr_fields_updated imu_hr AND push_bit 9 1 \<noteq> 0)
                (\<lambda>s. let atmp_msg = FluidPressure_new;
                         atmp_msg = atmp_msg\<lparr>press_header := header\<rparr>;
                         atmp_msg = atmp_msg\<lparr>fluid_pressure := fmul (hr_abs_pressure imu_hr) MILLIBAR_TO_PASCAL\<rparr>
                     in (s, [press_pub atmp_msg])))
              (on_cond (hr_fields_updated imu_hr AND push_bit 12 1 \<noteq> 0)
                (\<lambda>s. let temp_msg = Temperature_new;
                         temp_msg = temp_msg\<lparr>temp_header := header\<rparr>;
                         temp_msg = temp_msg\<lparr>temperature := hr_temperature imu_hr\<rparr>
                     in (s, [temp_pub temp_msg])))))
          s)"

definition handle_raw_imu :: "ftf \<Rightarrow> UAS \<Rightarrow> RAW_IMU \<Rightarrow> IMUPlugin \<Rightarrow> IMUPlugin \<times> effect list" where
  "handle_raw_imu f uas imu_raw s =
     (if has_hr_imu s \<or> has_scaled_imu s then (s, [])
      else
        (let header = synchronized_header_us uas (frame_id s) (raw_time_usec imu_raw);
             gyro = transform_frame_aircraft_baselink f
               (vec_scale (Vector3d_i16 (raw_xgyro imu_raw) (raw_ygyro imu_raw) (raw_zgyro imu_raw))
                  MILLIRS_TO_RADSEC);
             accel_ned = Vector3d_i16 (raw_xacc imu_raw) (raw_yacc imu_raw) (raw_zacc imu_raw);
             accel_enu = transform_frame_aircraft_baselink f accel_ned;
             accel_ned = (if is_ardupilotmega uas then vec_scale accel_ned MILLIG_TO_MS2 else accel_ned);
             accel_enu = (if is_ardupilotmega uas then vec_scale accel_enu MILLIG_TO_MS2 else accel_enu)
         in seq
             (publish_imu_data_raw header gyro accel_enu accel_ned)
             (seq
               (on_cond (\<not> is_ardupilotmega uas)
                 (\<lambda>s. (s\<lparr>linear_accel_vec_enu := setZero, linear_accel_vec_ned := setZero\<rparr>, [])))
               (let mag_field = transform_frame_aircraft_baselink f
                      (vec_scale (Vector3d_i16 (raw_xmag imu_raw) (raw_ymag imu_raw) (raw_zmag imu_raw))
                         MILLIT_TO_TESLA)
                in publish_mag header mag_field))
             s))"

definition handle_scaled_imu :: "ftf \<Rightarrow> UAS \<Rightarrow> SCALED_IMU \<Rightarrow> IMUPlugin \<Rightarrow> IMUPlugin \<times> effect list" where
  "handle_scaled_imu f uas imu_raw s =
     (if has_hr_imu s then (s, [])
      else
        (let s = s\<lparr>has_scaled_imu := True\<rparr>;
             header = synchronized_header_ms uas (frame_id s) (sc_time_boot_ms imu_raw);
             gyro = transform_frame_aircraft_baselink f
               (vec_scale (Vector3d_i16 (sc_xgyro imu_raw) (sc_ygyro imu_raw) (sc_zgyro imu_raw))
                  MILLIRS_TO_RADSEC);
             accel_ned = vec_scale (Vector3d_i16 (sc_xacc imu_raw) (sc_yacc imu_raw) (sc_zacc imu_raw))
               MILLIG_TO_MS2;
             accel_enu = transform_frame_aircraft_baselink f accel_ned
         in seq
             (publish_imu_data_raw header gyro accel_enu accel_ned)
             (let mag_field = transform_frame_aircraft_baselink f
                    (vec_scale (Vector3d_i16 (sc_xmag imu_raw) (sc_ymag imu_raw) (sc_zmag imu_raw))
                       MILLIT_TO_TESLA)
              in publish_mag header mag_field)
             s))"

definition handle_scaled_pressure :: "UAS \<Rightarrow> SCALED_PRESSURE \<Rightarrow> IMUPlugin \<Rightarrow> IMUPlugin \<times> effect list" where
  "handle_scaled_pressure uas press s =
     (if has_hr_imu s then (s, [])
      else
        (let header = synchronized_header_ms uas (frame_id s) (sp_time_boot_ms press);
             temp_msg = Temperature_new;
             temp_msg = temp_msg\<lparr>temp_header := header\<rparr>;
             temp_msg = temp_msg\<lparr>temperature := fdiv (double_of_int16 (sp_temperature press)) (Finite 100)\<rparr>;
             atmp_msg = FluidPressure_new;
             atmp_msg = atmp_msg\<lparr>press_header := header\<rparr>;
             atmp_msg = atmp_msg\<lparr>fluid_pressure := fmul (sp_press_abs press) (Finite 100)\<rparr>
         in (s, [temp_pub temp_msg, press_pub atmp_msg])))"

definition connection_cb :: "bool \<Rightarrow> IMUPlugin \<Rightarrow> IMUPlugin \<times> effect list" where
  "connection_cb conn s =
     (s\<lparr>has_hr_imu := False, has_scaled_imu := False, has_att_quat := False\<rparr>, [])"

subsection \<open>Delivery\<close>

text \<open>
  \<^verbatim>\<open>get_subscriptions\<close> registers one handler per message kind and \<^verbatim>\<open>initialize\<close>
  enables the connection callback; the host delivers one event at a time. A delivery
  is the event together with the UAS as it is at that moment.
\<close>

datatype event =
    Attitude ATTITUDE
  | AttitudeQuaternion ATTITUDE_QUATERNION
  | HighresImu HIGHRES_IMU
  | RawImu RAW_IMU
  | ScaledImu SCALED_IMU
  | ScaledPressure SCALED_PRESSURE
  | ConnectionChanged bool

fun deliver :: "ftf \<Rightarrow> UAS \<times> event \<Rightarrow> IMUPlugin \<Rightarrow> IMUPlugin \<times> effect list" where
  "deliver f (uas, Attitude att) s = handle_attitude f uas att s"
| "deliver f (uas, AttitudeQuaternion att_q) s = handle_attitude_quaternion f uas att_q s"
| "deliver f (uas, HighresImu imu_hr) s = handle_highres_imu f uas imu_hr s"
| "deliver f (uas, RawImu imu_raw) s = handle_raw_imu f uas imu_raw s"
| "deliver f (uas, ScaledImu imu_raw) s = handle_scaled_imu f uas imu_raw s"
| "deliver f (uas, ScaledPressure press) s = handle_scaled_pressure uas press s"
| "deliver f (uas, ConnectionChanged conn) s = connection_cb conn s"

fun run :: "ftf \<Rightarrow> (UAS \<times> event) list \<Rightarrow> IMUPlugin \<Rightarrow> IMUPlugin \<times> effect list" where
  "run f [] s = (s, [])"
| "run f (d # ds) s = (let (s1, o1) = deliver f d s; (s2, o2) = run f ds s1 in (s2, o1 @ o2))"

fun is_connection_change :: "UAS \<times> event \<Rightarrow> bool" where
  "is_connection_change (uas, ConnectionChanged conn) = True"
| "is_connection_change (uas, e) = False"

subsection \<open>Reading the effects\<close>

text \<open>The messages a list of effects hands to one collaborator, in order.\<close>

fun msgs_update_attitude_imu_ned :: "effect list \<Rightarrow> Imu list" where
  "msgs_update_attitude_imu_ned [] = []"
| "msgs_update_attitude_imu_ned (update_attitude_imu_ned m # es) = m # msgs_update_attitude_imu_ned es"
| "msgs_update_attitude_imu_ned (e # es) = msgs_update_attitude_imu_ned es"

fun msgs_imu_raw_pub :: "effect list \<Rightarrow> Imu list" where
  "msgs_imu_raw_pub [] = []"
| "msgs_imu_raw_pub (imu_raw_pub m # es) = m # msgs_imu_raw_pub es"
| "msgs_imu_raw_pub (e # es) = msgs_imu_raw_pub es"

fun msgs_magn_pub :: "effect list \<Rightarrow> MagneticField list" where
  "msgs_magn_pub [] = []"
| "msgs_magn_pub (magn_pub m # es) = m # msgs_magn_pub es"
| "msgs_magn_pub (e # es) = msgs_magn_pub es"

fun msgs_update_attitude_imu_enu :: "effect list \<Rightarrow> Imu list" where
  "msgs_update_attitude_imu_enu [] = []"
| "msgs_update_attitude_imu_enu (update_attitude_imu_enu m # es) = m # msgs_update_attitude_imu_enu es"
| "msgs_update_attitude_imu_enu (e # es) = msgs_update_attitude_imu_enu es"

text \<open>A delivery of \<^verbatim>\<open>RAW_IMU\<close> while \<^verbatim>\<open>is_ardupilotmega()\<close> answers false.\<close>

fun non_apm_raw_imu :: "UAS \<times> event \<Rightarrow> bool" where
  "non_apm_raw_imu (uas, RawImu imu_raw) = (\<not> is_ardupilotmega uas)"
| "non_apm_raw_imu (uas, e) = False"

subsection \<open>A concrete instance for the examples\<close>

text \<open>
  The theorems below hold for every \<^typ>\<open>ftf\<close> and every \<^typ>\<open>UAS\<close>. The examples need
  one of each: here the vector transformation is the half turn about the roll axis,
  the orientation functions are simple stand-ins, and the time synchronisation only
  converts the unit. All values of the example messages are binary64 numbers. \<open>example_memory\<close> is an object's memory before the constructor runs.
\<close>

definition example_ftf :: ftf where
  "example_ftf = \<lparr>quaternion_from_rpy = (\<lambda>r p y. Quaterniond (Finite 1) r p y),
     transform_orientation_ned_enu = (\<lambda>q. case q of Quaterniond w x y z \<Rightarrow> Quaterniond w y x (fneg z)),
     transform_orientation_aircraft_baselink =
       (\<lambda>q. case q of Quaterniond w x y z \<Rightarrow> Quaterniond w x (fneg y) (fneg z)),
     transform_frame_aircraft_baselink = (\<lambda>v. case v of Vector3d x y z \<Rightarrow> Vector3d x (fneg y) (fneg z))\<rparr>"

definition example_uas :: "bool \<Rightarrow> UAS" where
  "example_uas apm = \<lparr>is_ardupilotmega = apm,
     synchronized_header_ms = (\<lambda>fid t. \<lparr>hdr_seq = 0, hdr_stamp = (t div 1000, (t mod 1000) * 1000000), hdr_frame_id = fid\<rparr>),
     synchronized_header_us = (\<lambda>fid t. \<lparr>hdr_seq = 0, hdr_stamp = (ucast (t div 1000000), ucast (t mod 1000000) * 1000), hdr_frame_id = fid\<rparr>)\<rparr>"

definition example_memory :: IMUPlugin where
  "example_memory = \<lparr>frame_id = '''', has_hr_imu = True, has_scaled_imu = True, has_att_quat = True,
     linear_accel_vec_enu = Vector3d (Finite 7) (Finite 7) (Finite 7), linear_accel_vec_ned = Vector3d (Finite 7) (Finite 7) (Finite 7),
     linear_acceleration_cov = replicate 9 (Finite 7), angular_velocity_cov = replicate 9 (Finite 7),
     orientation_cov = replicate 9 (Finite 7), unk_orientation_cov = replicate 9 (Finite 7),
     magnetic_cov = replicate 9 (Finite 7)\<rparr>"

definition no_params :: params where
  "no_params = \<lparr>param_frame_id = None, param_linear_acceleration_stdev = None,
     param_angular_velocity_stdev = None, param_orientation_stdev = None, param_magnetic_stdev = None\<rparr>"

text \<open>The plugin after its constructor and \<^verbatim>\<open>initialize\<close> with no parameter set.\<close>

definition example_plugin :: IMUPlugin where
  "example_plugin = initialize no_params (IMUPlugin_new example_memory)"

text \<open>One message of each kind. The \<^verbatim>\<open>HIGHRES_IMU\<close> one has the bits 0 to 12 set.\<close>

definition example_attitude :: ATTITUDE where
  "example_attitude = \<lparr>att_time_boot_ms = 2000, att_roll = Finite 0.125, att_pitch = Finite 0.25,
     att_yaw = Finite 0.5, att_rollspeed = Finite 0.125, att_pitchspeed = Finite 0.25,
     att_yawspeed = Finite 0.5\<rparr>"

definition example_attitude_quaternion :: ATTITUDE_QUATERNION where
  "example_attitude_quaternion = \<lparr>attq_time_boot_ms = 2000, attq_q1 = Finite 1, attq_q2 = Finite 0,
     attq_q3 = Finite 0, attq_q4 = Finite 0, attq_rollspeed = Finite 0.125,
     attq_pitchspeed = Finite 0.25, attq_yawspeed = Finite 0.5\<rparr>"

definition example_highres_imu :: HIGHRES_IMU where
  "example_highres_imu = \<lparr>hr_time_usec = 1000000, hr_xacc = Finite 1, hr_yacc = Finite (- 2),
     hr_zacc = Finite (- 3), hr_xgyro = Finite 0.125, hr_ygyro = Finite 0.25, hr_zgyro = Finite 0.5,
     hr_xmag = Finite 1, hr_ymag = Finite 1, hr_zmag = Finite 1,
     hr_abs_pressure = Finite 1013.25, hr_temperature = Finite 25, hr_fields_updated = 8191\<rparr>"

definition example_raw_imu :: RAW_IMU where
  "example_raw_imu = \<lparr>raw_time_usec = 1000000, raw_xacc = 1, raw_yacc = 2, raw_zacc = 3,
     raw_xgyro = 1000, raw_ygyro = 2000, raw_zgyro = 3000, raw_xmag = 1, raw_ymag = 2, raw_zmag = 3\<rparr>"

definition example_scaled_imu :: SCALED_IMU where
  "example_scaled_imu = \<lparr>sc_time_boot_ms = 1000, sc_xacc = 1000, sc_yacc = 2000, sc_zacc = 3000,
     sc_xgyro = 1000, sc_ygyro = 2000, sc_zgyro = 3000, sc_xmag = 1, sc_ymag = 2, sc_zmag = 3\<rparr>"

definition example_scaled_pressure :: SCALED_PRESSURE where
  "example_scaled_pressure = \<lparr>sp_time_boot_ms = 1000, sp_press_abs = Finite 1013.25, sp_temperature = 2500\<rparr>"

text \<open>Three deliveries, none of them a connection change.\<close>

definition example_deliveries :: "(UAS \<times> event) list" where
  "example_deliveries =
     [(example_uas False, ScaledPressure example_scaled_pressure),
      (example_uas True, Attitude example_attitude),
      (example_uas True, RawImu example_raw_imu)]"

section \<open>Properties\<close>

subsection \<open>Rounding\<close>

lemma pow2_pos: "0 < pow2 k"
  by (simp add: pow2_def)

lemma pow2_neq_0: "pow2 k \<noteq> 0"
  by (simp add: pow2_def)

lemma pow2_powr: "pow2 k = 2 powr (of_int k)"
  by (simp add: pow2_def powr_real_of_int field_simps)

lemma pow2_add: "pow2 (j + k) = pow2 j * pow2 k"
  by (simp add: pow2_powr powr_add)

text \<open>Between two powers of two the unit in the last place is known.\<close>

lemma quantum_eval:
  assumes "pow2 e \<le> m" "m < pow2 (e + 1)"
  shows "quantum m = max (e - 52) (- 1074)"
proof -
  have "0 < m"
    using assms(1) pow2_pos [of e] by linarith
  moreover have "2 powr (of_int e) \<le> m" "m < 2 powr (of_int e + 1)"
    using assms by (simp_all add: pow2_powr)
  ultimately have "\<lfloor>log 2 m\<rfloor> = e"
    by (simp add: floor_log_eq_powr_iff)
  then show ?thesis
    by (simp add: quantum_def)
qed

lemma round_magnitude_eval:
  assumes "pow2 e \<le> m" "m < pow2 (e + 1)"
  shows "round_magnitude m =
     of_int (round_half_even (m / pow2 (max (e - 52) (- 1074)))) * pow2 (max (e - 52) (- 1074))"
proof -
  have "0 < m"
    using assms(1) pow2_pos [of e] by linarith
  then show ?thesis
    by (simp add: round_magnitude_def quantum_eval [OF assms])
qed

lemma round_half_even_of_int: "round_half_even (of_int n) = n"
  by (simp add: round_half_even_def)

text \<open>A number with at most 53 significant bits and an exponent in range is not changed.\<close>

lemma quantum_le:
  assumes "0 < n" "n < 2 ^ 53" "- 1074 \<le> k"
  shows "quantum (of_int n * pow2 k) \<le> k"
proof -
  let ?m = "of_int n * pow2 k :: real"
  have pos: "0 < ?m"
    using assms(1) by (simp add: pow2_pos)
  have "of_int n < (2 ^ 53 :: real)"
    using assms(2) by (metis of_int_less_iff of_int_numeral of_int_power)
  then have "?m < 2 ^ 53 * pow2 k"
    by (simp add: pow2_pos)
  also have "\<dots> = 2 powr (of_int (53 + k))"
    by (simp add: pow2_powr powr_add)
  finally have "log 2 ?m < of_int (53 + k)"
    using pos by (simp add: log_less_iff)
  then have "\<lfloor>log 2 ?m\<rfloor> < 53 + k"
    by (simp add: floor_less_iff)
  with assms(3) show ?thesis
    by (simp add: quantum_def)
qed

lemma round_magnitude_exact:
  assumes "0 < n" "n < 2 ^ 53" "- 1074 \<le> k"
  shows "round_magnitude (of_int n * pow2 k) = of_int n * pow2 k"
proof -
  let ?m = "of_int n * pow2 k :: real"
  define q where "q = quantum ?m"
  define z where "z = n * 2 ^ nat (k - q)"
  have qk: "q \<le> k"
    unfolding q_def by (rule quantum_le [OF assms])
  have "pow2 (k - q) = 2 ^ nat (k - q)"
    using qk by (simp add: pow2_def)
  with pow2_add [of "k - q" q] have "pow2 k / pow2 q = 2 ^ nat (k - q)"
    by (simp add: pow2_neq_0)
  then have "of_int n * (pow2 k / pow2 q) = of_int z"
    by (simp add: z_def)
  then have scaled: "?m / pow2 q = of_int z"
    by simp
  then have "of_int (round_half_even (?m / pow2 q)) * pow2 q = ?m / pow2 q * pow2 q"
    by (simp only: round_half_even_of_int)
  also have "\<dots> = ?m"
    by (simp add: pow2_neq_0)
  finally have "of_int (round_half_even (?m / pow2 q)) * pow2 q = ?m" .
  moreover have "?m \<noteq> 0"
    using assms(1) by (simp add: pow2_neq_0)
  ultimately show ?thesis
    unfolding round_magnitude_def q_def by simp
qed

lemma round_double_exact:
  assumes "0 < n" "n < 2 ^ 53" "- 1074 \<le> k" "of_int n * pow2 k < 2 ^ 1024"
  shows "round_double neg (of_int n * pow2 k) =
     Finite (if neg then - (of_int n * pow2 k) else of_int n * pow2 k)"
  using assms by (simp add: round_double_def Let_def round_magnitude_exact pow2_neq_0)

text \<open>
  A product or quotient of finite doubles with a positive second operand is the exact
  result rounded once.
\<close>

lemma fmul_Finite: "0 < b \<Longrightarrow> fmul (Finite a) (Finite b) = double_lit (a * b)"
  by (simp add: fmul_def double_lit_def abs_mult mult_less_0_iff)

lemma fdiv_Finite: "0 < b \<Longrightarrow> fdiv (Finite a) (Finite b) = double_lit (a / b)"
  by (simp add: fdiv_def double_lit_def divide_less_0_iff)

lemmas round_eval = double_lit_def fmul_def fdiv_def std_pow_2_def round_double_def Let_def
  pow2_def round_half_even_def double_of_int16_def

text \<open>The three coefficients that are no binary64 numbers as written.\<close>

lemma GAUSS_TO_TESLA_value: "GAUSS_TO_TESLA = Finite (7378697629483821 / 2 ^ 66)"
  by (simp add: GAUSS_TO_TESLA_def round_eval round_magnitude_eval [where e = "- 14"])

lemma MILLIRS_TO_RADSEC_value: "MILLIRS_TO_RADSEC = Finite (1152921504606847 / 2 ^ 60)"
  by (simp add: MILLIRS_TO_RADSEC_def round_eval round_magnitude_eval [where e = "- 10"])

lemma MILLIG_TO_MS2_value: "MILLIG_TO_MS2 = Finite (353321802286023 / 2 ^ 55)"
  by (simp add: MILLIG_TO_MS2_def round_eval round_magnitude_eval [where e = 3]
      round_magnitude_eval [where e = "- 7"])

subsection \<open>What each handler does to the state\<close>

lemmas step_defs = seq_def on_cond_def skip_def Let_def
  publish_imu_data_def publish_imu_data_raw_def publish_mag_def

lemma handle_attitude_state: "fst (handle_attitude f uas att s) = s"
  by (simp add: handle_attitude_def step_defs)

lemma handle_attitude_quaternion_state:
  "fst (handle_attitude_quaternion f uas att_q s) = s\<lparr>has_att_quat := True\<rparr>"
  by (simp add: handle_attitude_quaternion_def step_defs)

lemma handle_highres_imu_state:
  "fst (handle_highres_imu f uas imu_hr s) =
     (if hr_fields_updated imu_hr AND (push_bit 3 7 OR push_bit 0 7) \<noteq> 0
      then s\<lparr>has_hr_imu := True,
             linear_accel_vec_enu := transform_frame_aircraft_baselink f
               (Vector3d (hr_xacc imu_hr) (hr_yacc imu_hr) (hr_zacc imu_hr)),
             linear_accel_vec_ned := Vector3d (hr_xacc imu_hr) (hr_yacc imu_hr) (hr_zacc imu_hr)\<rparr>
      else s\<lparr>has_hr_imu := True\<rparr>)"
  by (simp add: handle_highres_imu_def step_defs)

lemma handle_raw_imu_state:
  "fst (handle_raw_imu f uas imu_raw s) =
     (if has_hr_imu s \<or> has_scaled_imu s then s
      else if is_ardupilotmega uas
      then s\<lparr>linear_accel_vec_enu := vec_scale (transform_frame_aircraft_baselink f
                (Vector3d_i16 (raw_xacc imu_raw) (raw_yacc imu_raw) (raw_zacc imu_raw))) MILLIG_TO_MS2,
             linear_accel_vec_ned := vec_scale
                (Vector3d_i16 (raw_xacc imu_raw) (raw_yacc imu_raw) (raw_zacc imu_raw)) MILLIG_TO_MS2\<rparr>
      else s\<lparr>linear_accel_vec_enu := setZero, linear_accel_vec_ned := setZero\<rparr>)"
  by (simp add: handle_raw_imu_def step_defs)

lemma handle_scaled_imu_state:
  "fst (handle_scaled_imu f uas imu_raw s) =
     (if has_hr_imu s then s
      else s\<lparr>has_scaled_imu := True,
             linear_accel_vec_enu := transform_frame_aircraft_baselink f (vec_scale
                (Vector3d_i16 (sc_xacc imu_raw) (sc_yacc imu_raw) (sc_zacc imu_raw)) MILLIG_TO_MS2),
             linear_accel_vec_ned := vec_scale
                (Vector3d_i16 (sc_xacc imu_raw) (sc_yacc imu_raw) (sc_zacc imu_raw)) MILLIG_TO_MS2\<rparr>)"
  by (simp add: handle_scaled_imu_def step_defs)

lemma handle_scaled_pressure_state: "fst (handle_scaled_pressure uas press s) = s"
  by (simp add: handle_scaled_pressure_def step_defs)

lemma connection_cb_state:
  "fst (connection_cb conn s) = s\<lparr>has_hr_imu := False, has_scaled_imu := False, has_att_quat := False\<rparr>"
  by (simp add: connection_cb_def)

lemmas handler_state = handle_attitude_state handle_attitude_quaternion_state
  handle_highres_imu_state handle_raw_imu_state handle_scaled_imu_state
  handle_scaled_pressure_state connection_cb_state

lemma dropped_scaled_imu: "has_hr_imu s \<Longrightarrow> handle_scaled_imu f uas m s = (s, [])"
  by (simp add: handle_scaled_imu_def)

lemma dropped_raw_imu: "has_hr_imu s \<or> has_scaled_imu s \<Longrightarrow> handle_raw_imu f uas m s = (s, [])"
  by (simp add: handle_raw_imu_def)

lemma dropped_attitude: "has_att_quat s \<Longrightarrow> handle_attitude f uas m s = (s, [])"
  by (simp add: handle_attitude_def)

subsection \<open>Runs\<close>

lemma fst_run_Cons: "fst (run f (d # ds) s) = fst (run f ds (fst (deliver f d s)))"
  by (simp add: split_def Let_def)

lemma run_append:
  "run f (ds @ es) s =
     (let (s1, o1) = run f ds s; (s2, o2) = run f es s1 in (s2, o1 @ o2))"
  by (induction ds arbitrary: s) (simp_all add: split_def Let_def)

lemma msgs_enu_append:
  "msgs_update_attitude_imu_enu (xs @ ys) = msgs_update_attitude_imu_enu xs @ msgs_update_attitude_imu_enu ys"
  by (induction xs rule: msgs_update_attitude_imu_enu.induct) simp_all

lemma msgs_ned_append:
  "msgs_update_attitude_imu_ned (xs @ ys) = msgs_update_attitude_imu_ned xs @ msgs_update_attitude_imu_ned ys"
  by (induction xs rule: msgs_update_attitude_imu_ned.induct) simp_all

lemma msgs_raw_append:
  "msgs_imu_raw_pub (xs @ ys) = msgs_imu_raw_pub xs @ msgs_imu_raw_pub ys"
  by (induction xs rule: msgs_imu_raw_pub.induct) simp_all

text \<open>A flag that is set stays set as long as no connection change is delivered.\<close>

lemma deliver_keeps_hr:
  "\<not> is_connection_change d \<Longrightarrow> has_hr_imu s \<Longrightarrow> has_hr_imu (fst (deliver f d s))"
  by (cases "(f, d, s)" rule: deliver.cases) (simp_all add: handler_state)

lemma deliver_keeps_scaled:
  "\<not> is_connection_change d \<Longrightarrow> has_scaled_imu s \<Longrightarrow> has_scaled_imu (fst (deliver f d s))"
  by (cases "(f, d, s)" rule: deliver.cases) (simp_all add: handler_state)

lemma deliver_keeps_att_quat:
  "\<not> is_connection_change d \<Longrightarrow> has_att_quat s \<Longrightarrow> has_att_quat (fst (deliver f d s))"
  by (cases "(f, d, s)" rule: deliver.cases) (simp_all add: handler_state)

lemma run_keeps_hr:
  "\<forall>d \<in> set ds. \<not> is_connection_change d \<Longrightarrow> has_hr_imu s \<Longrightarrow> has_hr_imu (fst (run f ds s))"
proof (induction ds arbitrary: s)
  case Nil
  then show ?case by simp
next
  case (Cons d ds)
  from Cons.prems have "has_hr_imu (fst (deliver f d s))"
    by (simp add: deliver_keeps_hr)
  with Cons show ?case
    by (simp only: fst_run_Cons) simp
qed

lemma run_keeps_scaled:
  "\<forall>d \<in> set ds. \<not> is_connection_change d \<Longrightarrow> has_scaled_imu s \<Longrightarrow> has_scaled_imu (fst (run f ds s))"
proof (induction ds arbitrary: s)
  case Nil
  then show ?case by simp
next
  case (Cons d ds)
  from Cons.prems have "has_scaled_imu (fst (deliver f d s))"
    by (simp add: deliver_keeps_scaled)
  with Cons show ?case
    by (simp only: fst_run_Cons) simp
qed

lemma run_keeps_att_quat:
  "\<forall>d \<in> set ds. \<not> is_connection_change d \<Longrightarrow> has_att_quat s \<Longrightarrow> has_att_quat (fst (run f ds s))"
proof (induction ds arbitrary: s)
  case Nil
  then show ?case by simp
next
  case (Cons d ds)
  from Cons.prems have "has_att_quat (fst (deliver f d s))"
    by (simp add: deliver_keeps_att_quat)
  with Cons show ?case
    by (simp only: fst_run_Cons) simp
qed

text \<open>Deliveries of \<^verbatim>\<open>RAW_IMU\<close> from a firmware that is not APM, one and many.\<close>

lemma non_apm_raw_imu_step:
  assumes "non_apm_raw_imu d" "\<not> has_hr_imu s" "\<not> has_scaled_imu s"
  shows "\<not> has_hr_imu (fst (deliver f d s))" "\<not> has_scaled_imu (fst (deliver f d s))"
    "linear_accel_vec_enu (fst (deliver f d s)) = Vector3d (Finite 0) (Finite 0) (Finite 0)"
    "linear_accel_vec_ned (fst (deliver f d s)) = Vector3d (Finite 0) (Finite 0) (Finite 0)"
    "length (msgs_imu_raw_pub (snd (deliver f d s))) = 1"
  using assms
  by (cases "(f, d, s)" rule: deliver.cases;
      simp add: handler_state setZero_def handle_raw_imu_def step_defs)+

lemma non_apm_raw_imu_run:
  "\<forall>d \<in> set ds. non_apm_raw_imu d \<Longrightarrow> \<not> has_hr_imu s \<Longrightarrow> \<not> has_scaled_imu s \<Longrightarrow>
   \<not> has_hr_imu (fst (run f ds s)) \<and> \<not> has_scaled_imu (fst (run f ds s))
   \<and> length (msgs_imu_raw_pub (snd (run f ds s))) = length ds"
proof (induction ds arbitrary: s)
  case Nil
  then show ?case by simp
next
  case (Cons d ds)
  then have d: "non_apm_raw_imu d" and ds: "\<forall>d \<in> set ds. non_apm_raw_imu d"
    by simp_all
  note step = non_apm_raw_imu_step [OF d Cons.prems(2,3), of f]
  from Cons.IH [OF ds step(1,2)] step(5) show ?case
    by (simp add: split_def Let_def msgs_raw_append)
qed

subsection \<open>The example instance\<close>

lemma example_plugin_flags:
  "\<not> has_hr_imu example_plugin" "\<not> has_scaled_imu example_plugin" "\<not> has_att_quat example_plugin"
  by (simp_all add: example_plugin_def initialize_def IMUPlugin_new_def Let_def)

lemma example_plugin_orientation_cov: "orientation_cov example_plugin = [Finite 1, Finite 0, Finite 0, Finite 0, Finite 1, Finite 0, Finite 0, Finite 0, Finite 1]"
  by (simp add: example_plugin_def initialize_def IMUPlugin_new_def example_memory_def
      no_params_def param_def setup_covariance_def eval_nat_numeral feq_def round_eval
      round_magnitude_eval [where e = 0])

lemma example_after_highres:
  "fst (deliver example_ftf (example_uas False, HighresImu example_highres_imu) example_plugin) =
     example_plugin\<lparr>has_hr_imu := True, linear_accel_vec_enu := Vector3d (Finite 1) (Finite 2) (Finite 3),
       linear_accel_vec_ned := Vector3d (Finite 1) (Finite (- 2)) (Finite (- 3))\<rparr>"
  by (simp add: handler_state example_highres_imu_def example_ftf_def)

subsection \<open>Orientation covariance of the two attitude records\<close>

text \<open>
  C1, as amended. For every accepted \<^verbatim>\<open>ATTITUDE\<close> message (the quaternion flag is not
  set) and for every \<^verbatim>\<open>ATTITUDE_QUATERNION\<close> message, the handler hands the ENU record
  to the UAS, the NED record to the UAS and the ENU record to the publisher, and both
  records carry the configured orientation covariance \<open>orientation_cov\<close> in their
  orientation-covariance field.
\<close>

theorem orientation_covariance_both_frames:
  "(\<not> has_att_quat s \<longrightarrow>
      (\<exists>enu ned. snd (deliver f (uas, Attitude att) s) =
          [update_attitude_imu_enu enu, update_attitude_imu_ned ned, imu_pub enu]
        \<and> orientation_covariance enu = orientation_cov s
        \<and> orientation_covariance ned = orientation_cov s))
   \<and> (\<exists>enu ned. snd (deliver f (uas, AttitudeQuaternion att_q) s) =
          [update_attitude_imu_enu enu, update_attitude_imu_ned ned, imu_pub enu]
        \<and> orientation_covariance enu = orientation_cov s
        \<and> orientation_covariance ned = orientation_cov s)"
  by (simp add: handle_attitude_def handle_attitude_quaternion_def step_defs)

theorem orientation_covariance_both_frames_witness:
  "\<not> has_att_quat example_plugin
   \<and> map orientation_covariance (msgs_update_attitude_imu_ned
        (snd (deliver example_ftf (example_uas False, Attitude example_attitude) example_plugin)))
      = [orientation_cov example_plugin]
   \<and> map orientation_covariance (msgs_update_attitude_imu_enu
        (snd (deliver example_ftf (example_uas False, Attitude example_attitude) example_plugin)))
      = [orientation_cov example_plugin]"
proof -
  have np: "\<not> has_att_quat example_plugin"
    by (simp add: example_plugin_flags)
  from np orientation_covariance_both_frames [where s = example_plugin and f = example_ftf
      and uas = "example_uas False" and att = example_attitude and att_q = example_attitude_quaternion]
  obtain enu ned where
    "snd (deliver example_ftf (example_uas False, Attitude example_attitude) example_plugin) =
       [update_attitude_imu_enu enu, update_attitude_imu_ned ned, imu_pub enu]"
    "orientation_covariance enu = orientation_cov example_plugin"
    "orientation_covariance ned = orientation_cov example_plugin"
    by blast
  with np show ?thesis
    by simp
qed

text \<open>
  C1 as stated fails. With no parameter set the orientation standard deviation is 1,
  and the NED record of an accepted \<^verbatim>\<open>ATTITUDE\<close> or \<^verbatim>\<open>ATTITUDE_QUATERNION\<close> message
  carries the identity matrix, not the sentinel.
\<close>

theorem ned_orientation_covariance_counterexample:
  "map orientation_covariance (msgs_update_attitude_imu_ned
      (snd (deliver example_ftf (example_uas False, Attitude example_attitude) example_plugin)))
     = [[Finite 1, Finite 0, Finite 0, Finite 0, Finite 1, Finite 0, Finite 0, Finite 0, Finite 1]]
   \<and> map orientation_covariance (msgs_update_attitude_imu_ned
      (snd (deliver example_ftf (example_uas False, Attitude example_attitude) example_plugin)))
     \<noteq> [[Finite (- 1), Finite 0, Finite 0, Finite 0, Finite 0, Finite 0, Finite 0, Finite 0, Finite 0]]
   \<and> map orientation_covariance (msgs_update_attitude_imu_ned
      (snd (deliver example_ftf (example_uas False, AttitudeQuaternion example_attitude_quaternion) example_plugin)))
     \<noteq> [[Finite (- 1), Finite 0, Finite 0, Finite 0, Finite 0, Finite 0, Finite 0, Finite 0, Finite 0]]"
  by (simp add: handle_attitude_def handle_attitude_quaternion_def step_defs example_plugin_flags
      example_plugin_orientation_cov)

subsection \<open>The zeroing of the stored acceleration\<close>

text \<open>
  C2, as amended. While neither the high-resolution nor the scaled flag is set, every
  \<^verbatim>\<open>RAW_IMU\<close> message of a run of such messages from a firmware that is not APM is
  accepted (each one publishes a raw record), and after each of them, the first and every
  later one, both stored acceleration vectors are zero.
\<close>

theorem raw_imu_zeroes_cache_every_time:
  assumes "\<not> has_hr_imu s" "\<not> has_scaled_imu s"
    and "\<forall>d \<in> set ds. non_apm_raw_imu d" and "non_apm_raw_imu d"
  shows "linear_accel_vec_enu (fst (run f (ds @ [d]) s)) = Vector3d (Finite 0) (Finite 0) (Finite 0)
       \<and> linear_accel_vec_ned (fst (run f (ds @ [d]) s)) = Vector3d (Finite 0) (Finite 0) (Finite 0)
       \<and> length (msgs_imu_raw_pub (snd (run f (ds @ [d]) s))) = length ds + 1"
proof -
  from non_apm_raw_imu_run [OF assms(3,1,2), of f]
  have pre: "\<not> has_hr_imu (fst (run f ds s))" "\<not> has_scaled_imu (fst (run f ds s))"
    "length (msgs_imu_raw_pub (snd (run f ds s))) = length ds"
    by simp_all
  note step = non_apm_raw_imu_step [OF assms(4) pre(1,2), of f]
  show ?thesis
    using step(3,4,5) pre(3) by (simp add: run_append split_def Let_def msgs_raw_append)
qed

theorem raw_imu_zeroes_cache_every_time_witness:
  "\<not> has_hr_imu example_plugin \<and> \<not> has_scaled_imu example_plugin
   \<and> non_apm_raw_imu (example_uas False, RawImu example_raw_imu)
   \<and> linear_accel_vec_enu (fst (run example_ftf
        ([(example_uas False, RawImu example_raw_imu)] @ [(example_uas False, RawImu example_raw_imu)])
        example_plugin)) = Vector3d (Finite 0) (Finite 0) (Finite 0)
   \<and> linear_accel_vec_ned (fst (run example_ftf
        ([(example_uas False, RawImu example_raw_imu)] @ [(example_uas False, RawImu example_raw_imu)])
        example_plugin)) = Vector3d (Finite 0) (Finite 0) (Finite 0)
   \<and> length (msgs_imu_raw_pub (snd (run example_ftf
        ([(example_uas False, RawImu example_raw_imu)] @ [(example_uas False, RawImu example_raw_imu)])
        example_plugin))) = 2"
proof -
  have h: "\<not> has_hr_imu example_plugin" "\<not> has_scaled_imu example_plugin"
    "\<forall>d \<in> set [(example_uas False, RawImu example_raw_imu)]. non_apm_raw_imu d"
    "non_apm_raw_imu (example_uas False, RawImu example_raw_imu)"
    by (simp_all add: example_plugin_flags example_uas_def)
  from raw_imu_zeroes_cache_every_time [OF h, of example_ftf] h show ?thesis
    by simp
qed

text \<open>
  C2 as stated fails. Two \<^verbatim>\<open>RAW_IMU\<close> messages with the acceleration (1, 2, 3) from a
  firmware that is not APM: both are accepted and publish the unscaled acceleration, and
  the second one's \<^verbatim>\<open>publish_imu_data_raw\<close> stores (1, 2, 3) as the NED vector. Were the
  zeroing inactive on the second message, that would be the stored vector at the end; it
  is zero.
\<close>

theorem raw_imu_zeroing_once_counterexample:
  "\<not> is_ardupilotmega (example_uas False)
   \<and> map linear_acceleration (msgs_imu_raw_pub (snd (run example_ftf
        [(example_uas False, RawImu example_raw_imu), (example_uas False, RawImu example_raw_imu)]
        example_plugin))) = [Vector3d (Finite 1) (Finite (- 2)) (Finite (- 3)), Vector3d (Finite 1) (Finite (- 2)) (Finite (- 3))]
   \<and> linear_accel_vec_enu (fst (run example_ftf
        [(example_uas False, RawImu example_raw_imu), (example_uas False, RawImu example_raw_imu)]
        example_plugin)) = Vector3d (Finite 0) (Finite 0) (Finite 0)
   \<and> linear_accel_vec_ned (fst (run example_ftf
        [(example_uas False, RawImu example_raw_imu), (example_uas False, RawImu example_raw_imu)]
        example_plugin)) = Vector3d (Finite 0) (Finite 0) (Finite 0)
   \<and> linear_accel_vec_ned (fst (run example_ftf
        [(example_uas False, RawImu example_raw_imu), (example_uas False, RawImu example_raw_imu)]
        example_plugin))
      \<noteq> Vector3d_i16 (raw_xacc example_raw_imu) (raw_yacc example_raw_imu) (raw_zacc example_raw_imu)"
  by (simp add: handle_raw_imu_def step_defs example_plugin_flags example_uas_def example_raw_imu_def
      example_ftf_def setZero_def Vector3d_i16_def double_of_int16_def split_def)

subsection \<open>Arbitration\<close>

text \<open>
  C3. Let \<open>ds\<close> be any deliveries without a connection change. After a \<^verbatim>\<open>HIGHRES_IMU\<close>
  message and then \<open>ds\<close>, a \<^verbatim>\<open>SCALED_IMU\<close> and a \<^verbatim>\<open>RAW_IMU\<close> message are dropped: no
  effect and the state unchanged. After an \<^verbatim>\<open>ATTITUDE_QUATERNION\<close> message and then
  \<open>ds\<close>, an \<^verbatim>\<open>ATTITUDE\<close> message is dropped. After a \<^verbatim>\<open>SCALED_IMU\<close> message that was
  accepted (the high-resolution flag was not set) and then \<open>ds\<close>, a \<^verbatim>\<open>RAW_IMU\<close> message
  is dropped.
\<close>

theorem arbitration_monotonicity:
  assumes "\<forall>d \<in> set ds. \<not> is_connection_change d"
  shows "(let t = fst (run f ds (fst (deliver f (uas, HighresImu imu_hr) s))) in
            deliver f (uas', ScaledImu sc) t = (t, []) \<and>
            deliver f (uas', RawImu raw) t = (t, []))
       \<and> (let t = fst (run f ds (fst (deliver f (uas, AttitudeQuaternion att_q) s))) in
            deliver f (uas', Attitude att) t = (t, []))
       \<and> (\<not> has_hr_imu s \<longrightarrow>
           (let t = fst (run f ds (fst (deliver f (uas, ScaledImu sc) s))) in
              deliver f (uas', RawImu raw) t = (t, [])))"
proof -
  have "has_hr_imu (fst (deliver f (uas, HighresImu imu_hr) s))"
    by (simp add: handler_state)
  then have hr: "has_hr_imu (fst (run f ds (fst (deliver f (uas, HighresImu imu_hr) s))))"
    using assms by (simp add: run_keeps_hr)
  have "has_att_quat (fst (deliver f (uas, AttitudeQuaternion att_q) s))"
    by (simp add: handler_state)
  then have aq: "has_att_quat (fst (run f ds (fst (deliver f (uas, AttitudeQuaternion att_q) s))))"
    using assms by (simp add: run_keeps_att_quat)
  have sc: "has_scaled_imu (fst (run f ds (fst (deliver f (uas, ScaledImu sc) s))))"
    if "\<not> has_hr_imu s"
  proof -
    from that have "has_scaled_imu (fst (deliver f (uas, ScaledImu sc) s))"
      by (simp add: handler_state)
    then show ?thesis
      using assms by (simp add: run_keeps_scaled)
  qed
  show ?thesis
    using hr aq sc by (simp add: Let_def dropped_scaled_imu dropped_raw_imu dropped_attitude)
qed

theorem arbitration_monotonicity_witness:
  "list_all (\<lambda>d. \<not> is_connection_change d) example_deliveries
   \<and> \<not> has_hr_imu example_plugin
   \<and> (let t = fst (run example_ftf example_deliveries
          (fst (deliver example_ftf (example_uas False, HighresImu example_highres_imu) example_plugin))) in
        deliver example_ftf (example_uas True, ScaledImu example_scaled_imu) t = (t, []) \<and>
        deliver example_ftf (example_uas True, RawImu example_raw_imu) t = (t, []))
   \<and> (let t = fst (run example_ftf example_deliveries
          (fst (deliver example_ftf (example_uas False, AttitudeQuaternion example_attitude_quaternion)
             example_plugin))) in
        deliver example_ftf (example_uas True, Attitude example_attitude) t = (t, []))
   \<and> (let t = fst (run example_ftf example_deliveries
          (fst (deliver example_ftf (example_uas False, ScaledImu example_scaled_imu) example_plugin))) in
        deliver example_ftf (example_uas True, RawImu example_raw_imu) t = (t, []))"
proof -
  have nc: "\<forall>d \<in> set example_deliveries. \<not> is_connection_change d"
    by (simp add: example_deliveries_def)
  have np: "\<not> has_hr_imu example_plugin"
    by (simp add: example_plugin_flags)
  from nc have "list_all (\<lambda>d. \<not> is_connection_change d) example_deliveries"
    by (simp add: list_all_iff)
  with np arbitration_monotonicity [OF nc, where f = example_ftf and uas = "example_uas False"
      and uas' = "example_uas True" and s = example_plugin and imu_hr = example_highres_imu
      and sc = example_scaled_imu and raw = example_raw_imu
      and att_q = example_attitude_quaternion and att = example_attitude]
  show ?thesis
    by blast
qed

subsection \<open>The connection callback\<close>

text \<open>
  C4. For every state and either value of the payload, \<^verbatim>\<open>connection_cb\<close> sets the three
  flags to false, has no effect on the collaborators and changes no other member: the
  two stored acceleration vectors, the five covariance matrices and the frame name are
  as before. The next message of any kind is then accepted: an \<^verbatim>\<open>ATTITUDE\<close> or
  \<^verbatim>\<open>ATTITUDE_QUATERNION\<close> message has its three effects, a \<^verbatim>\<open>RAW_IMU\<close>,
  \<^verbatim>\<open>SCALED_IMU\<close> or \<^verbatim>\<open>SCALED_PRESSURE\<close> message its two, and a \<^verbatim>\<open>HIGHRES_IMU\<close>
  message sets its flag.
\<close>

theorem connection_cb_resets_flags_only:
  "(let t = fst (connection_cb conn s) in
      \<not> has_hr_imu t \<and> \<not> has_scaled_imu t \<and> \<not> has_att_quat t
      \<and> t = s\<lparr>has_hr_imu := False, has_scaled_imu := False, has_att_quat := False\<rparr>
      \<and> linear_accel_vec_enu t = linear_accel_vec_enu s
      \<and> linear_accel_vec_ned t = linear_accel_vec_ned s
      \<and> linear_acceleration_cov t = linear_acceleration_cov s
      \<and> angular_velocity_cov t = angular_velocity_cov s
      \<and> orientation_cov t = orientation_cov s
      \<and> unk_orientation_cov t = unk_orientation_cov s
      \<and> magnetic_cov t = magnetic_cov s
      \<and> frame_id t = frame_id s
      \<and> snd (connection_cb conn s) = []
      \<and> length (snd (deliver f (uas, Attitude att) t)) = 3
      \<and> length (snd (deliver f (uas, AttitudeQuaternion att_q) t)) = 3
      \<and> length (snd (deliver f (uas, RawImu raw) t)) = 2
      \<and> length (snd (deliver f (uas, ScaledImu sc) t)) = 2
      \<and> length (snd (deliver f (uas, ScaledPressure press) t)) = 2
      \<and> has_hr_imu (fst (deliver f (uas, HighresImu imu_hr) t)))"
  by (simp add: Let_def connection_cb_def handler_state handle_attitude_def handle_attitude_quaternion_def
      handle_raw_imu_def handle_scaled_imu_def handle_scaled_pressure_def step_defs)

theorem connection_cb_resets_flags_only_witness:
  "has_hr_imu example_memory \<and> has_scaled_imu example_memory \<and> has_att_quat example_memory
   \<and> \<not> has_hr_imu (fst (connection_cb False example_memory))
   \<and> \<not> has_scaled_imu (fst (connection_cb False example_memory))
   \<and> \<not> has_att_quat (fst (connection_cb False example_memory))
   \<and> linear_accel_vec_enu (fst (connection_cb False example_memory)) = Vector3d (Finite 7) (Finite 7) (Finite 7)
   \<and> linear_accel_vec_ned (fst (connection_cb False example_memory)) = Vector3d (Finite 7) (Finite 7) (Finite 7)
   \<and> deliver example_ftf (example_uas False, RawImu example_raw_imu) example_memory = (example_memory, [])
   \<and> length (snd (deliver example_ftf (example_uas False, RawImu example_raw_imu)
        (fst (connection_cb False example_memory)))) = 2"
  using connection_cb_resets_flags_only [where s = example_memory and conn = False and f = example_ftf
      and uas = "example_uas False" and att = example_attitude and att_q = example_attitude_quaternion
      and imu_hr = example_highres_imu and sc = example_scaled_imu and raw = example_raw_imu
      and press = example_scaled_pressure]
  by (simp add: Let_def example_memory_def handle_raw_imu_def connection_cb_def)

subsection \<open>Scaled pressure\<close>

text \<open>
  C5. A \<^verbatim>\<open>SCALED_PRESSURE\<close> message is dropped (no effect, state unchanged) exactly when
  the high-resolution flag is set. Otherwise the state is unchanged and the effects are
  one temperature record with the raw temperature divided by 100 and one pressure
  record with the raw pressure multiplied by 100, in this order. The effects depend on
  the state through the high-resolution flag and the frame name only; the two other
  flags do not matter.
\<close>

theorem scaled_pressure_gate_and_values:
  "(deliver f (uas, ScaledPressure press) s = (s, [])) = has_hr_imu s
   \<and> (\<not> has_hr_imu s \<longrightarrow>
        deliver f (uas, ScaledPressure press) s =
          (s, [temp_pub \<lparr>temp_header = synchronized_header_ms uas (frame_id s) (sp_time_boot_ms press),
                         temperature = fdiv (double_of_int16 (sp_temperature press)) (Finite 100),
                         temp_variance = Finite 0\<rparr>,
               press_pub \<lparr>press_header = synchronized_header_ms uas (frame_id s) (sp_time_boot_ms press),
                          fluid_pressure = fmul (sp_press_abs press) (Finite 100),
                          press_variance = Finite 0\<rparr>]))
   \<and> fdiv (double_of_int16 (sp_temperature press)) (Finite 100)
       = double_lit (real_of_int (sint (sp_temperature press)) / 100)
   \<and> fmul (Finite p) (Finite 100) = double_lit (p * 100)
   \<and> (has_hr_imu s = has_hr_imu t \<and> frame_id s = frame_id t \<longrightarrow>
        snd (deliver f (uas, ScaledPressure press) s) = snd (deliver f (uas, ScaledPressure press) t))
   \<and> snd (deliver f (uas, ScaledPressure press) (s\<lparr>has_scaled_imu := a, has_att_quat := b\<rparr>))
       = snd (deliver f (uas, ScaledPressure press) s)"
  by (simp add: handle_scaled_pressure_def Let_def Temperature_new_def FluidPressure_new_def
      fmul_Finite fdiv_Finite double_of_int16_def)

theorem scaled_pressure_gate_and_values_witness:
  "\<not> has_hr_imu example_plugin
   \<and> snd (deliver example_ftf (example_uas False, ScaledPressure example_scaled_pressure) example_plugin) =
       [temp_pub \<lparr>temp_header = synchronized_header_ms (example_uas False) ''base_link'' 1000,
                  temperature = Finite 25, temp_variance = Finite 0\<rparr>,
        press_pub \<lparr>press_header = synchronized_header_ms (example_uas False) ''base_link'' 1000,
                   fluid_pressure = Finite 101325, press_variance = Finite 0\<rparr>]
   \<and> has_hr_imu example_memory
   \<and> deliver example_ftf (example_uas False, ScaledPressure example_scaled_pressure) example_memory
       = (example_memory, [])"
proof -
  have vals: "fdiv (double_of_int16 2500) (Finite 100) = Finite 25"
    "fmul (Finite (4053 / 4)) (Finite 100) = Finite 101325"
    by (simp_all add: round_eval round_magnitude_eval [where e = 4]
        round_magnitude_eval [where e = 16])
  show ?thesis
    using scaled_pressure_gate_and_values [where s = example_plugin and f = example_ftf
        and uas = "example_uas False" and press = example_scaled_pressure and t = example_plugin
        and a = False and b = False and p = 0]
      scaled_pressure_gate_and_values [where s = example_memory and f = example_ftf
        and uas = "example_uas False" and press = example_scaled_pressure and t = example_memory
        and a = False and b = False and p = 0]
    by (simp add: example_plugin_flags example_memory_def example_scaled_pressure_def
        example_plugin_def initialize_def Let_def no_params_def param_def IMUPlugin_new_def vals)
qed

subsection \<open>The stored acceleration in the attitude records\<close>

text \<open>
  C6. In a state whose stored acceleration is (1, 2, 3) in the ENU frame and \<open>v\<close> in the
  NED frame, as an inertial message left it, an accepted \<^verbatim>\<open>ATTITUDE\<close> message and an
  \<^verbatim>\<open>ATTITUDE_QUATERNION\<close> message produce an ENU record with the linear acceleration
  (1, 2, 3) and a NED record with the linear acceleration \<open>v\<close>, and leave the stored
  vectors as they are.
\<close>

theorem cached_acceleration_in_attitude_records:
  "linear_accel_vec_enu s = Vector3d (Finite 1) (Finite 2) (Finite 3) \<Longrightarrow> linear_accel_vec_ned s = v \<Longrightarrow>
   (\<not> has_att_quat s \<longrightarrow>
      (\<exists>enu ned. deliver f (uas, Attitude att) s =
          (s, [update_attitude_imu_enu enu, update_attitude_imu_ned ned, imu_pub enu])
        \<and> linear_acceleration enu = Vector3d (Finite 1) (Finite 2) (Finite 3)
        \<and> linear_acceleration ned = v))
   \<and> (\<exists>enu ned. deliver f (uas, AttitudeQuaternion att_q) s =
          (s\<lparr>has_att_quat := True\<rparr>, [update_attitude_imu_enu enu, update_attitude_imu_ned ned, imu_pub enu])
        \<and> linear_acceleration enu = Vector3d (Finite 1) (Finite 2) (Finite 3)
        \<and> linear_acceleration ned = v)"
  by (simp add: handle_attitude_def handle_attitude_quaternion_def step_defs)

theorem cached_acceleration_in_attitude_records_witness:
  "linear_accel_vec_enu (fst (deliver example_ftf (example_uas False, HighresImu example_highres_imu) example_plugin))
     = Vector3d (Finite 1) (Finite 2) (Finite 3)
   \<and> linear_accel_vec_ned (fst (deliver example_ftf (example_uas False, HighresImu example_highres_imu) example_plugin))
     = Vector3d (Finite 1) (Finite (- 2)) (Finite (- 3))
   \<and> \<not> has_att_quat (fst (deliver example_ftf (example_uas False, HighresImu example_highres_imu) example_plugin))
   \<and> map linear_acceleration (msgs_update_attitude_imu_enu (snd (run example_ftf
        [(example_uas False, HighresImu example_highres_imu), (example_uas False, Attitude example_attitude)]
        example_plugin))) = [Vector3d (Finite 1) (Finite 2) (Finite 3)]
   \<and> map linear_acceleration (msgs_update_attitude_imu_ned (snd (run example_ftf
        [(example_uas False, HighresImu example_highres_imu), (example_uas False, Attitude example_attitude)]
        example_plugin))) = [Vector3d (Finite 1) (Finite (- 2)) (Finite (- 3))]"
proof -
  let ?s = "fst (deliver example_ftf (example_uas False, HighresImu example_highres_imu) example_plugin)"
  have enu: "linear_accel_vec_enu ?s = Vector3d (Finite 1) (Finite 2) (Finite 3)"
    and ned: "linear_accel_vec_ned ?s = Vector3d (Finite 1) (Finite (- 2)) (Finite (- 3))"
    and nq: "\<not> has_att_quat ?s"
    by (simp_all only: example_after_highres) (simp_all add: example_plugin_flags)
  from nq cached_acceleration_in_attitude_records [OF enu ned, where f = example_ftf
      and uas = "example_uas False" and att = example_attitude and att_q = example_attitude_quaternion]
  obtain e n where
    "deliver example_ftf (example_uas False, Attitude example_attitude) ?s =
       (?s, [update_attitude_imu_enu e, update_attitude_imu_ned n, imu_pub e])"
    "linear_acceleration e = Vector3d (Finite 1) (Finite 2) (Finite 3)" "linear_acceleration n = Vector3d (Finite 1) (Finite (- 2)) (Finite (- 3))"
    by blast
  moreover have "msgs_update_attitude_imu_enu
      (snd (deliver example_ftf (example_uas False, HighresImu example_highres_imu) example_plugin)) = []"
    "msgs_update_attitude_imu_ned
      (snd (deliver example_ftf (example_uas False, HighresImu example_highres_imu) example_plugin)) = []"
    by (simp_all add: handle_highres_imu_def step_defs example_highres_imu_def)
  ultimately show ?thesis
    using enu ned nq by (simp add: split_def Let_def msgs_enu_append msgs_ned_append)
qed

subsection \<open>The covariance builder\<close>

lemma map_const_nine:
  "length cov = 9 \<Longrightarrow>
   map (\<lambda>_. Finite 0) cov =
     [Finite 0, Finite 0, Finite 0, Finite 0, Finite 0, Finite 0, Finite 0, Finite 0, Finite 0]"
  by (simp add: map_replicate_const eval_nat_numeral)

lemma feq_zero: "feq x (Finite 0) = (x = Finite 0 \<or> x = NegZero)"
  by (cases x) (auto simp add: feq_def)

lemma std_pow_2_exact:
  assumes "r \<noteq> 0" "r ^ 2 = of_int n * pow2 k" "n < 2 ^ 53" "- 1074 \<le> k" "r ^ 2 < 2 ^ 1024"
  shows "std_pow_2 (Finite r) = Finite (r ^ 2)"
proof -
  have "0 < r ^ 2"
    using assms(1) by simp
  then have "0 < of_int n * pow2 k"
    by (simp only: assms(2))
  then have "0 < (of_int n :: real)"
    using pow2_pos [of k] by (rule zero_less_mult_pos2)
  then have n: "0 < n"
    by simp
  have "round_double False (of_int n * pow2 k) = Finite (of_int n * pow2 k)"
    using round_double_exact [OF n assms(3,4), of False] assms(2,5) by simp
  then have "round_double False (r ^ 2) = Finite (r ^ 2)"
    by (simp only: assms(2))
  moreover have "magnitude (Finite r) * magnitude (Finite r) = r ^ 2"
    by (simp add: power2_eq_square)
  ultimately show ?thesis
    by (simp add: std_pow_2_def)
qed

text \<open>
  C7. On an array of nine entries, \<^verbatim>\<open>setup_covariance\<close> yields the sentinel
  \<open>[-1, 0, 0, 0, 0, 0, 0, 0, 0]\<close> when \<^verbatim>\<open>stdev == 0.0\<close> holds, that is for the positive
  and the negative zero and for nothing else. For every other double, NaN and the
  infinities included, it yields the row-major matrix with \<^verbatim>\<open>std::pow(stdev, 2)\<close> at the
  indices 0, 4 and 8 and zero at the six others. That entry is the square as a double:
  rounded to nearest, zero when the square underflows, infinite when it overflows, NaN
  for a NaN; it is the square itself whenever the square is a binary64 number, as for
  the standard deviation 2, where the diagonal entries are 4.
\<close>

theorem setup_covariance_diagonal:
  "length cov = 9 \<Longrightarrow>
     setup_covariance cov stdev =
       (if feq stdev (Finite 0)
        then [Finite (- 1), Finite 0, Finite 0, Finite 0, Finite 0, Finite 0, Finite 0, Finite 0, Finite 0]
        else [std_pow_2 stdev, Finite 0, Finite 0, Finite 0, std_pow_2 stdev, Finite 0, Finite 0,
              Finite 0, std_pow_2 stdev])
     \<and> feq stdev (Finite 0) = (stdev = Finite 0 \<or> stdev = NegZero)
     \<and> (r \<noteq> 0 \<and> r ^ 2 = of_int n * pow2 k \<and> n < 2 ^ 53 \<and> - 1074 \<le> k \<and> r ^ 2 < 2 ^ 1024 \<longrightarrow>
          setup_covariance cov (Finite r) =
            [Finite (r ^ 2), Finite 0, Finite 0, Finite 0, Finite (r ^ 2), Finite 0, Finite 0,
             Finite 0, Finite (r ^ 2)])
     \<and> setup_covariance cov (Finite 2) =
          [Finite 4, Finite 0, Finite 0, Finite 0, Finite 4, Finite 0, Finite 0, Finite 0, Finite 4]"
proof -
  assume len: "length cov = 9"
  have general: "setup_covariance cov x =
       (if feq x (Finite 0)
        then [Finite (- 1), Finite 0, Finite 0, Finite 0, Finite 0, Finite 0, Finite 0, Finite 0, Finite 0]
        else [std_pow_2 x, Finite 0, Finite 0, Finite 0, std_pow_2 x, Finite 0, Finite 0,
              Finite 0, std_pow_2 x])" for x
    using len by (simp add: setup_covariance_def Let_def map_const_nine eval_nat_numeral)
  have exact: "setup_covariance cov (Finite r) =
            [Finite (r ^ 2), Finite 0, Finite 0, Finite 0, Finite (r ^ 2), Finite 0, Finite 0,
             Finite 0, Finite (r ^ 2)]"
    if "r \<noteq> 0" "r ^ 2 = of_int n * pow2 k" "n < 2 ^ 53" "- 1074 \<le> k" "r ^ 2 < 2 ^ 1024"
    using that by (simp add: general feq_zero std_pow_2_exact [OF that])
  have "std_pow_2 (Finite 2) = Finite 4"
    by (simp add: round_eval round_magnitude_eval [where e = 2])
  then have two: "setup_covariance cov (Finite 2) =
          [Finite 4, Finite 0, Finite 0, Finite 0, Finite 4, Finite 0, Finite 0, Finite 0, Finite 4]"
    by (simp add: general feq_zero)
  show ?thesis
    using general [of stdev] exact two by (simp add: feq_zero)
qed

theorem setup_covariance_diagonal_witness:
  "length (replicate 9 (Finite 7)) = 9
   \<and> setup_covariance (replicate 9 (Finite 7)) (Finite 3) =
       [Finite 9, Finite 0, Finite 0, Finite 0, Finite 9, Finite 0, Finite 0, Finite 0, Finite 9]
   \<and> setup_covariance (replicate 9 (Finite 7)) (Finite 0) =
       [Finite (- 1), Finite 0, Finite 0, Finite 0, Finite 0, Finite 0, Finite 0, Finite 0, Finite 0]
   \<and> setup_covariance (replicate 9 (Finite 7)) NegZero =
       [Finite (- 1), Finite 0, Finite 0, Finite 0, Finite 0, Finite 0, Finite 0, Finite 0, Finite 0]
   \<and> setup_covariance (replicate 9 (Finite 7)) NaN =
       [NaN, Finite 0, Finite 0, Finite 0, NaN, Finite 0, Finite 0, Finite 0, NaN]
   \<and> setup_covariance (replicate 9 (Finite 7)) (Finite (1 / 2 ^ 538)) =
       [Finite 0, Finite 0, Finite 0, Finite 0, Finite 0, Finite 0, Finite 0, Finite 0, Finite 0]
   \<and> setup_covariance (replicate 9 (Finite 7)) (Finite (2 ^ 600)) =
       [PosInf, Finite 0, Finite 0, Finite 0, PosInf, Finite 0, Finite 0, Finite 0, PosInf]
   \<and> double_lit 0.1 = Finite (3602879701896397 / 2 ^ 55)
   \<and> setup_covariance (replicate 9 (Finite 7)) (double_lit 0.1) =
       [Finite (1441151880758559 / 2 ^ 57), Finite 0, Finite 0, Finite 0,
        Finite (1441151880758559 / 2 ^ 57), Finite 0, Finite 0, Finite 0,
        Finite (1441151880758559 / 2 ^ 57)]"
proof -
  have len: "length (replicate 9 (Finite 7)) = 9"
    by simp
  note at = setup_covariance_diagonal [OF len, where r = 3 and n = 9 and k = 0]
  have tenth: "double_lit 0.1 = Finite (3602879701896397 / 2 ^ 55)"
    by (simp add: round_eval round_magnitude_eval [where e = "- 4"])
  have "setup_covariance (replicate 9 (Finite 7)) (Finite 3) =
       [Finite 9, Finite 0, Finite 0, Finite 0, Finite 9, Finite 0, Finite 0, Finite 0, Finite 9]"
    using at [where stdev = "Finite 3", THEN conjunct2, THEN conjunct2, THEN conjunct1]
    by (simp add: pow2_def)
  moreover have "setup_covariance (replicate 9 (Finite 7)) (Finite 0) =
       [Finite (- 1), Finite 0, Finite 0, Finite 0, Finite 0, Finite 0, Finite 0, Finite 0, Finite 0]"
    using at [where stdev = "Finite 0", THEN conjunct1] by (simp add: feq_zero)
  moreover have "setup_covariance (replicate 9 (Finite 7)) NegZero =
       [Finite (- 1), Finite 0, Finite 0, Finite 0, Finite 0, Finite 0, Finite 0, Finite 0, Finite 0]"
    using at [where stdev = NegZero, THEN conjunct1] by (simp add: feq_zero)
  moreover have "setup_covariance (replicate 9 (Finite 7)) NaN =
       [NaN, Finite 0, Finite 0, Finite 0, NaN, Finite 0, Finite 0, Finite 0, NaN]"
    using at [where stdev = NaN, THEN conjunct1] by (simp add: feq_zero std_pow_2_def)
  moreover have "setup_covariance (replicate 9 (Finite 7)) (Finite (1 / 2 ^ 538)) =
       [Finite 0, Finite 0, Finite 0, Finite 0, Finite 0, Finite 0, Finite 0, Finite 0, Finite 0]"
    using at [where stdev = "Finite (1 / 2 ^ 538)", THEN conjunct1]
    by (simp add: feq_zero round_eval round_magnitude_eval [where e = "- 1076"])
  moreover have "setup_covariance (replicate 9 (Finite 7)) (Finite (2 ^ 600)) =
       [PosInf, Finite 0, Finite 0, Finite 0, PosInf, Finite 0, Finite 0, Finite 0, PosInf]"
    using at [where stdev = "Finite (2 ^ 600)", THEN conjunct1]
    by (simp add: feq_zero round_eval round_magnitude_eval [where e = 1200])
  moreover have "setup_covariance (replicate 9 (Finite 7)) (double_lit 0.1) =
       [Finite (1441151880758559 / 2 ^ 57), Finite 0, Finite 0, Finite 0,
        Finite (1441151880758559 / 2 ^ 57), Finite 0, Finite 0, Finite 0,
        Finite (1441151880758559 / 2 ^ 57)]"
    using at [where stdev = "Finite (3602879701896397 / 2 ^ 55)", THEN conjunct1]
    by (simp add: tenth feq_zero) (simp add: round_eval round_magnitude_eval [where e = "- 7"])
  ultimately show ?thesis
    using len tenth by simp
qed

subsection \<open>Unit conversion\<close>

text \<open>
  C8. The coefficients are the doubles of \<^verbatim>\<open>1.0e-4\<close>, \<^verbatim>\<open>1.0e-3\<close> and
  \<^verbatim>\<open>9.80665 / 1000.0\<close>. When the magnetometer bits of a \<^verbatim>\<open>HIGHRES_IMU\<close> message are
  set, the published magnetic field is the frame transformation of the vector whose
  components are the message's, each multiplied as a double by the first coefficient;
  a reading of 1 Gauss per axis enters the transformation as exactly that coefficient
  per axis, the double of \<^verbatim>\<open>1.0e-4\<close>. The angular velocity of an accepted \<^verbatim>\<open>RAW_IMU\<close>
  or \<^verbatim>\<open>SCALED_IMU\<close> message is the transformation of the gyro components, each
  multiplied by the second coefficient, and the acceleration of an accepted
  \<^verbatim>\<open>SCALED_IMU\<close> message that of the components multiplied by the third, which is also
  the stored NED vector.
\<close>

theorem unit_conversion_coefficients:
  "GAUSS_TO_TESLA = double_lit (1 / 10000)
   \<and> GAUSS_TO_TESLA = Finite (7378697629483821 / 2 ^ 66)
   \<and> MILLIRS_TO_RADSEC = double_lit (1 / 1000)
   \<and> MILLIRS_TO_RADSEC = Finite (1152921504606847 / 2 ^ 60)
   \<and> MILLIG_TO_MS2 = fdiv (double_lit 9.80665) (Finite 1000)
   \<and> MILLIG_TO_MS2 = Finite (353321802286023 / 2 ^ 55)
   \<and> (hr_fields_updated imu_hr AND push_bit 6 7 \<noteq> 0 \<longrightarrow>
      map magnetic_field (msgs_magn_pub (snd (deliver f (uas, HighresImu imu_hr) s))) =
        [transform_frame_aircraft_baselink f
           (Vector3d (fmul (hr_xmag imu_hr) GAUSS_TO_TESLA) (fmul (hr_ymag imu_hr) GAUSS_TO_TESLA)
              (fmul (hr_zmag imu_hr) GAUSS_TO_TESLA))])
   \<and> (hr_fields_updated imu_hr AND push_bit 6 7 \<noteq> 0
        \<and> hr_xmag imu_hr = Finite 1 \<and> hr_ymag imu_hr = Finite 1 \<and> hr_zmag imu_hr = Finite 1 \<longrightarrow>
      map magnetic_field (msgs_magn_pub (snd (deliver f (uas, HighresImu imu_hr) s))) =
        [transform_frame_aircraft_baselink f (Vector3d GAUSS_TO_TESLA GAUSS_TO_TESLA GAUSS_TO_TESLA)])
   \<and> (\<not> has_hr_imu s \<and> \<not> has_scaled_imu s \<longrightarrow>
      map angular_velocity (msgs_imu_raw_pub (snd (deliver f (uas, RawImu raw) s))) =
        [transform_frame_aircraft_baselink f
           (Vector3d (fmul (double_of_int16 (raw_xgyro raw)) MILLIRS_TO_RADSEC)
                     (fmul (double_of_int16 (raw_ygyro raw)) MILLIRS_TO_RADSEC)
                     (fmul (double_of_int16 (raw_zgyro raw)) MILLIRS_TO_RADSEC))])
   \<and> (\<not> has_hr_imu s \<longrightarrow>
      map angular_velocity (msgs_imu_raw_pub (snd (deliver f (uas, ScaledImu sc) s))) =
        [transform_frame_aircraft_baselink f
           (Vector3d (fmul (double_of_int16 (sc_xgyro sc)) MILLIRS_TO_RADSEC)
                     (fmul (double_of_int16 (sc_ygyro sc)) MILLIRS_TO_RADSEC)
                     (fmul (double_of_int16 (sc_zgyro sc)) MILLIRS_TO_RADSEC))]
      \<and> map linear_acceleration (msgs_imu_raw_pub (snd (deliver f (uas, ScaledImu sc) s))) =
        [transform_frame_aircraft_baselink f
           (Vector3d (fmul (double_of_int16 (sc_xacc sc)) MILLIG_TO_MS2)
                     (fmul (double_of_int16 (sc_yacc sc)) MILLIG_TO_MS2)
                     (fmul (double_of_int16 (sc_zacc sc)) MILLIG_TO_MS2))]
      \<and> linear_accel_vec_ned (fst (deliver f (uas, ScaledImu sc) s)) =
           Vector3d (fmul (double_of_int16 (sc_xacc sc)) MILLIG_TO_MS2)
                    (fmul (double_of_int16 (sc_yacc sc)) MILLIG_TO_MS2)
                    (fmul (double_of_int16 (sc_zacc sc)) MILLIG_TO_MS2))"
proof -
  have one: "fmul (Finite 1) GAUSS_TO_TESLA = GAUSS_TO_TESLA"
    by (simp add: GAUSS_TO_TESLA_value) (simp add: round_eval round_magnitude_eval [where e = "- 14"])
  have coeffs: "GAUSS_TO_TESLA = double_lit (1 / 10000)" "MILLIRS_TO_RADSEC = double_lit (1 / 1000)"
    "MILLIG_TO_MS2 = fdiv (double_lit 9.80665) (Finite 1000)"
    by (simp_all add: GAUSS_TO_TESLA_def MILLIRS_TO_RADSEC_def MILLIG_TO_MS2_def)
  have handlers: "(hr_fields_updated imu_hr AND push_bit 6 7 \<noteq> 0 \<longrightarrow>
      map magnetic_field (msgs_magn_pub (snd (deliver f (uas, HighresImu imu_hr) s))) =
        [transform_frame_aircraft_baselink f
           (Vector3d (fmul (hr_xmag imu_hr) GAUSS_TO_TESLA) (fmul (hr_ymag imu_hr) GAUSS_TO_TESLA)
              (fmul (hr_zmag imu_hr) GAUSS_TO_TESLA))])
   \<and> (\<not> has_hr_imu s \<and> \<not> has_scaled_imu s \<longrightarrow>
      map angular_velocity (msgs_imu_raw_pub (snd (deliver f (uas, RawImu raw) s))) =
        [transform_frame_aircraft_baselink f
           (Vector3d (fmul (double_of_int16 (raw_xgyro raw)) MILLIRS_TO_RADSEC)
                     (fmul (double_of_int16 (raw_ygyro raw)) MILLIRS_TO_RADSEC)
                     (fmul (double_of_int16 (raw_zgyro raw)) MILLIRS_TO_RADSEC))])
   \<and> (\<not> has_hr_imu s \<longrightarrow>
      map angular_velocity (msgs_imu_raw_pub (snd (deliver f (uas, ScaledImu sc) s))) =
        [transform_frame_aircraft_baselink f
           (Vector3d (fmul (double_of_int16 (sc_xgyro sc)) MILLIRS_TO_RADSEC)
                     (fmul (double_of_int16 (sc_ygyro sc)) MILLIRS_TO_RADSEC)
                     (fmul (double_of_int16 (sc_zgyro sc)) MILLIRS_TO_RADSEC))]
      \<and> map linear_acceleration (msgs_imu_raw_pub (snd (deliver f (uas, ScaledImu sc) s))) =
        [transform_frame_aircraft_baselink f
           (Vector3d (fmul (double_of_int16 (sc_xacc sc)) MILLIG_TO_MS2)
                     (fmul (double_of_int16 (sc_yacc sc)) MILLIG_TO_MS2)
                     (fmul (double_of_int16 (sc_zacc sc)) MILLIG_TO_MS2))]
      \<and> linear_accel_vec_ned (fst (deliver f (uas, ScaledImu sc) s)) =
           Vector3d (fmul (double_of_int16 (sc_xacc sc)) MILLIG_TO_MS2)
                    (fmul (double_of_int16 (sc_yacc sc)) MILLIG_TO_MS2)
                    (fmul (double_of_int16 (sc_zacc sc)) MILLIG_TO_MS2))"
    by (simp add: handle_highres_imu_def handle_raw_imu_def handle_scaled_imu_def step_defs
        Vector3d_i16_def)
  have gauss: "map magnetic_field (msgs_magn_pub (snd (deliver f (uas, HighresImu imu_hr) s))) =
        [transform_frame_aircraft_baselink f (Vector3d GAUSS_TO_TESLA GAUSS_TO_TESLA GAUSS_TO_TESLA)]"
    if "hr_fields_updated imu_hr AND push_bit 6 7 \<noteq> 0"
      "hr_xmag imu_hr = Finite 1" "hr_ymag imu_hr = Finite 1" "hr_zmag imu_hr = Finite 1"
    using handlers that by (simp add: one)
  show ?thesis
    using coeffs GAUSS_TO_TESLA_value MILLIRS_TO_RADSEC_value MILLIG_TO_MS2_value handlers gauss
    by blast
qed

theorem unit_conversion_coefficients_witness:
  "hr_fields_updated example_highres_imu AND push_bit 6 7 \<noteq> 0
   \<and> hr_xmag example_highres_imu = Finite 1 \<and> hr_ymag example_highres_imu = Finite 1
   \<and> hr_zmag example_highres_imu = Finite 1
   \<and> map magnetic_field (msgs_magn_pub
        (snd (deliver example_ftf (example_uas False, HighresImu example_highres_imu) example_plugin))) =
      [Vector3d (Finite (7378697629483821 / 2 ^ 66)) (Finite (- (7378697629483821 / 2 ^ 66)))
         (Finite (- (7378697629483821 / 2 ^ 66)))]
   \<and> \<not> has_hr_imu example_plugin \<and> \<not> has_scaled_imu example_plugin
   \<and> map angular_velocity (msgs_imu_raw_pub
        (snd (deliver example_ftf (example_uas False, RawImu example_raw_imu) example_plugin))) =
      [Vector3d (Finite 1) (Finite (- 2)) (Finite (- 3))]
   \<and> map angular_velocity (msgs_imu_raw_pub
        (snd (deliver example_ftf (example_uas False, ScaledImu example_scaled_imu) example_plugin))) =
      [Vector3d (Finite 1) (Finite (- 2)) (Finite (- 3))]
   \<and> map linear_acceleration (msgs_imu_raw_pub
        (snd (deliver example_ftf (example_uas False, ScaledImu example_scaled_imu) example_plugin))) =
      [Vector3d (Finite (5520653160719109 / 2 ^ 49)) (Finite (- (5520653160719109 / 2 ^ 48)))
         (Finite (- (1035122467634833 / 2 ^ 45)))]
   \<and> fmul (Finite 3) GAUSS_TO_TESLA = Finite (2767011611056433 / 2 ^ 63)
   \<and> fmul (double_of_int16 32767) MILLIG_TO_MS2 = Finite (706622039520637 / 2 ^ 41)"
proof -
  note at = unit_conversion_coefficients [where imu_hr = example_highres_imu and f = example_ftf
      and uas = "example_uas False" and s = example_plugin and raw = example_raw_imu
      and sc = example_scaled_imu]
  have bits: "hr_fields_updated example_highres_imu AND push_bit 6 7 \<noteq> 0"
    and mag: "hr_xmag example_highres_imu = Finite 1" "hr_ymag example_highres_imu = Finite 1"
      "hr_zmag example_highres_imu = Finite 1"
    by (simp_all add: example_highres_imu_def)
  have gyro: "fmul (Finite 1000) MILLIRS_TO_RADSEC = Finite 1"
    "fmul (Finite 2000) MILLIRS_TO_RADSEC = Finite 2"
    "fmul (Finite 3000) MILLIRS_TO_RADSEC = Finite 3"
    by (simp_all add: MILLIRS_TO_RADSEC_value)
      (simp_all add: round_eval round_magnitude_eval [where e = 0]
        round_magnitude_eval [where e = "- 1"] round_magnitude_eval [where e = 1])
  have acc: "fmul (Finite 1000) MILLIG_TO_MS2 = Finite (5520653160719109 / 2 ^ 49)"
    "fmul (Finite 2000) MILLIG_TO_MS2 = Finite (5520653160719109 / 2 ^ 48)"
    "fmul (Finite 3000) MILLIG_TO_MS2 = Finite (1035122467634833 / 2 ^ 45)"
    "fmul (double_of_int16 32767) MILLIG_TO_MS2 = Finite (706622039520637 / 2 ^ 41)"
    by (simp_all add: MILLIG_TO_MS2_value)
      (simp_all add: round_eval round_magnitude_eval [where e = 3]
        round_magnitude_eval [where e = 4] round_magnitude_eval [where e = 8])
  have three: "fmul (Finite 3) GAUSS_TO_TESLA = Finite (2767011611056433 / 2 ^ 63)"
    by (simp add: GAUSS_TO_TESLA_value)
      (simp add: round_eval round_magnitude_eval [where e = "- 12"])
  from at bits mag
  have "map magnetic_field (msgs_magn_pub
        (snd (deliver example_ftf (example_uas False, HighresImu example_highres_imu) example_plugin))) =
      [transform_frame_aircraft_baselink example_ftf (Vector3d GAUSS_TO_TESLA GAUSS_TO_TESLA GAUSS_TO_TESLA)]"
    by blast
  then have m: "map magnetic_field (msgs_magn_pub
        (snd (deliver example_ftf (example_uas False, HighresImu example_highres_imu) example_plugin))) =
      [Vector3d (Finite (7378697629483821 / 2 ^ 66)) (Finite (- (7378697629483821 / 2 ^ 66)))
         (Finite (- (7378697629483821 / 2 ^ 66)))]"
    by (simp add: example_ftf_def GAUSS_TO_TESLA_value)
  from at example_plugin_flags
  have "map angular_velocity (msgs_imu_raw_pub
        (snd (deliver example_ftf (example_uas False, RawImu example_raw_imu) example_plugin))) =
        [transform_frame_aircraft_baselink example_ftf
           (Vector3d (fmul (double_of_int16 (raw_xgyro example_raw_imu)) MILLIRS_TO_RADSEC)
                     (fmul (double_of_int16 (raw_ygyro example_raw_imu)) MILLIRS_TO_RADSEC)
                     (fmul (double_of_int16 (raw_zgyro example_raw_imu)) MILLIRS_TO_RADSEC))]"
    "map angular_velocity (msgs_imu_raw_pub
        (snd (deliver example_ftf (example_uas False, ScaledImu example_scaled_imu) example_plugin))) =
        [transform_frame_aircraft_baselink example_ftf
           (Vector3d (fmul (double_of_int16 (sc_xgyro example_scaled_imu)) MILLIRS_TO_RADSEC)
                     (fmul (double_of_int16 (sc_ygyro example_scaled_imu)) MILLIRS_TO_RADSEC)
                     (fmul (double_of_int16 (sc_zgyro example_scaled_imu)) MILLIRS_TO_RADSEC))]"
    "map linear_acceleration (msgs_imu_raw_pub
        (snd (deliver example_ftf (example_uas False, ScaledImu example_scaled_imu) example_plugin))) =
        [transform_frame_aircraft_baselink example_ftf
           (Vector3d (fmul (double_of_int16 (sc_xacc example_scaled_imu)) MILLIG_TO_MS2)
                     (fmul (double_of_int16 (sc_yacc example_scaled_imu)) MILLIG_TO_MS2)
                     (fmul (double_of_int16 (sc_zacc example_scaled_imu)) MILLIG_TO_MS2))]"
    by blast+
  then have rest: "map angular_velocity (msgs_imu_raw_pub
        (snd (deliver example_ftf (example_uas False, RawImu example_raw_imu) example_plugin))) =
      [Vector3d (Finite 1) (Finite (- 2)) (Finite (- 3))]"
    "map angular_velocity (msgs_imu_raw_pub
        (snd (deliver example_ftf (example_uas False, ScaledImu example_scaled_imu) example_plugin))) =
      [Vector3d (Finite 1) (Finite (- 2)) (Finite (- 3))]"
    "map linear_acceleration (msgs_imu_raw_pub
        (snd (deliver example_ftf (example_uas False, ScaledImu example_scaled_imu) example_plugin))) =
      [Vector3d (Finite (5520653160719109 / 2 ^ 49)) (Finite (- (5520653160719109 / 2 ^ 48)))
         (Finite (- (1035122467634833 / 2 ^ 45)))]"
    by (simp_all add: example_raw_imu_def example_scaled_imu_def example_ftf_def
        double_of_int16_def gyro acc(1,2,3))
  show ?thesis
    using bits mag m example_plugin_flags rest three acc(4) by simp
qed

subsection \<open>Raw acceleration from a firmware that is not APM\<close>

text \<open>
  C9. For an accepted \<^verbatim>\<open>RAW_IMU\<close> message from a firmware that is not APM,
  \<^verbatim>\<open>publish_imu_data_raw\<close> runs first on the unscaled acceleration: it publishes a raw
  record with that acceleration (in the ENU frame) and stores the unscaled pair. The
  zeroing runs after it: the handler's final state is that intermediate state with both
  stored vectors zero, while the published raw record keeps the unscaled values.
\<close>

theorem raw_imu_published_before_zeroing:
  "\<not> is_ardupilotmega uas \<Longrightarrow> \<not> has_hr_imu s \<Longrightarrow> \<not> has_scaled_imu s \<Longrightarrow>
   (\<exists>header gyro accel_enu accel_ned mid raw_msg mag_msg.
      accel_ned = Vector3d_i16 (raw_xacc imu_raw) (raw_yacc imu_raw) (raw_zacc imu_raw)
      \<and> accel_enu = transform_frame_aircraft_baselink f accel_ned
      \<and> publish_imu_data_raw header gyro accel_enu accel_ned s = (mid, [imu_raw_pub raw_msg])
      \<and> linear_acceleration raw_msg = accel_enu
      \<and> linear_accel_vec_enu mid = accel_enu
      \<and> linear_accel_vec_ned mid = accel_ned
      \<and> deliver f (uas, RawImu imu_raw) s =
          (mid\<lparr>linear_accel_vec_enu := Vector3d (Finite 0) (Finite 0) (Finite 0), linear_accel_vec_ned := Vector3d (Finite 0) (Finite 0) (Finite 0)\<rparr>,
           [imu_raw_pub raw_msg, magn_pub mag_msg]))
   \<and> linear_accel_vec_enu (fst (deliver f (uas, RawImu imu_raw) s)) = Vector3d (Finite 0) (Finite 0) (Finite 0)
   \<and> linear_accel_vec_ned (fst (deliver f (uas, RawImu imu_raw) s)) = Vector3d (Finite 0) (Finite 0) (Finite 0)
   \<and> map linear_acceleration (msgs_imu_raw_pub (snd (deliver f (uas, RawImu imu_raw) s))) =
        [transform_frame_aircraft_baselink f
           (Vector3d (double_of_int16 (raw_xacc imu_raw)) (double_of_int16 (raw_yacc imu_raw))
              (double_of_int16 (raw_zacc imu_raw)))]"
  by (simp add: handle_raw_imu_def step_defs setZero_def Vector3d_i16_def) blast

theorem raw_imu_published_before_zeroing_witness:
  "\<not> is_ardupilotmega (example_uas False) \<and> \<not> has_hr_imu example_plugin \<and> \<not> has_scaled_imu example_plugin
   \<and> map linear_acceleration (msgs_imu_raw_pub
        (snd (deliver example_ftf (example_uas False, RawImu example_raw_imu) example_plugin))) =
      [Vector3d (Finite 1) (Finite (- 2)) (Finite (- 3))]
   \<and> linear_accel_vec_enu (fst (deliver example_ftf (example_uas False, RawImu example_raw_imu) example_plugin))
      = Vector3d (Finite 0) (Finite 0) (Finite 0)
   \<and> linear_accel_vec_ned (fst (deliver example_ftf (example_uas False, RawImu example_raw_imu) example_plugin))
      = Vector3d (Finite 0) (Finite 0) (Finite 0)"
proof -
  have h: "\<not> is_ardupilotmega (example_uas False)" "\<not> has_hr_imu example_plugin"
    "\<not> has_scaled_imu example_plugin"
    by (simp_all add: example_uas_def example_plugin_flags)
  from raw_imu_published_before_zeroing [OF h, where f = example_ftf and imu_raw = example_raw_imu]
  have "linear_accel_vec_enu (fst (deliver example_ftf (example_uas False, RawImu example_raw_imu) example_plugin))
      = Vector3d (Finite 0) (Finite 0) (Finite 0)"
    "linear_accel_vec_ned (fst (deliver example_ftf (example_uas False, RawImu example_raw_imu) example_plugin))
      = Vector3d (Finite 0) (Finite 0) (Finite 0)"
    "map linear_acceleration (msgs_imu_raw_pub
        (snd (deliver example_ftf (example_uas False, RawImu example_raw_imu) example_plugin))) =
        [transform_frame_aircraft_baselink example_ftf
           (Vector3d (double_of_int16 (raw_xacc example_raw_imu)) (double_of_int16 (raw_yacc example_raw_imu))
              (double_of_int16 (raw_zacc example_raw_imu)))]"
    by blast+
  then show ?thesis
    using h by (simp add: example_raw_imu_def example_ftf_def double_of_int16_def)
qed

subsection \<open>Who sets and who clears the flags\<close>

text \<open>
  C10. An \<^verbatim>\<open>ATTITUDE\<close> message leaves the whole state, the flags included, as it is.
  \<^verbatim>\<open>ATTITUDE_QUATERNION\<close> sets \<open>has_att_quat\<close>, \<^verbatim>\<open>HIGHRES_IMU\<close> sets \<open>has_hr_imu\<close>, and
  an accepted \<^verbatim>\<open>SCALED_IMU\<close> sets \<open>has_scaled_imu\<close>. A flag that an event turns from
  false to true is the flag of that event's own handler, and an event that turns any
  flag from true to false is a connection change.
\<close>

theorem flags_set_by_own_handler_only:
  "fst (deliver f (uas, Attitude att) s) = s
   \<and> has_att_quat (fst (deliver f (uas, AttitudeQuaternion att_q) s))
   \<and> has_hr_imu (fst (deliver f (uas, HighresImu imu_hr) s))
   \<and> (\<not> has_hr_imu s \<longrightarrow> has_scaled_imu (fst (deliver f (uas, ScaledImu sc) s)))
   \<and> (has_att_quat (fst (deliver f (uas, e) s)) \<and> \<not> has_att_quat s \<longrightarrow> (\<exists>m. e = AttitudeQuaternion m))
   \<and> (has_hr_imu (fst (deliver f (uas, e) s)) \<and> \<not> has_hr_imu s \<longrightarrow> (\<exists>m. e = HighresImu m))
   \<and> (has_scaled_imu (fst (deliver f (uas, e) s)) \<and> \<not> has_scaled_imu s \<longrightarrow> (\<exists>m. e = ScaledImu m))
   \<and> ((has_att_quat s \<and> \<not> has_att_quat (fst (deliver f (uas, e) s))
        \<or> has_hr_imu s \<and> \<not> has_hr_imu (fst (deliver f (uas, e) s))
        \<or> has_scaled_imu s \<and> \<not> has_scaled_imu (fst (deliver f (uas, e) s)))
       \<longrightarrow> (\<exists>c. e = ConnectionChanged c))"
  by (cases e) (simp_all add: handler_state)

theorem flags_set_by_own_handler_only_witness:
  "has_att_quat (fst (deliver example_ftf (example_uas False, AttitudeQuaternion example_attitude_quaternion) example_plugin))
   \<and> \<not> has_att_quat example_plugin
   \<and> has_hr_imu (fst (deliver example_ftf (example_uas False, HighresImu example_highres_imu) example_plugin))
   \<and> \<not> has_hr_imu example_plugin
   \<and> has_scaled_imu (fst (deliver example_ftf (example_uas False, ScaledImu example_scaled_imu) example_plugin))
   \<and> \<not> has_scaled_imu example_plugin
   \<and> has_hr_imu example_memory
   \<and> \<not> has_hr_imu (fst (deliver example_ftf (example_uas False, ConnectionChanged True) example_memory))
   \<and> fst (deliver example_ftf (example_uas False, Attitude example_attitude) example_plugin) = example_plugin"
  using flags_set_by_own_handler_only [where s = example_plugin and f = example_ftf
      and uas = "example_uas False" and att = example_attitude and att_q = example_attitude_quaternion
      and imu_hr = example_highres_imu and sc = example_scaled_imu
      and e = "AttitudeQuaternion example_attitude_quaternion"]
    flags_set_by_own_handler_only [where s = example_memory and f = example_ftf
      and uas = "example_uas False" and att = example_attitude and att_q = example_attitude_quaternion
      and imu_hr = example_highres_imu and sc = example_scaled_imu
      and e = "ConnectionChanged True"]
  by (simp add: example_plugin_flags example_memory_def connection_cb_def)

end
